theory Spec2Isabelle
  imports Complex_Main
begin

section \<open>Strings of the host language\<close>

text \<open>
  The program is TypeScript. A string there is a finite sequence of UTF-16 code units:
  \<^verbatim>\<open>s.length\<close> counts code units, \<^verbatim>\<open>for (const char of s)\<close> walks code
  points. A code unit is modelled as a natural number; an ASCII literal of the source is
  written with \<open>js\<close>, every other literal as the list of its code units.
\<close>

type_synonym jsstring = "nat list"

definition js :: "string \<Rightarrow> jsstring" where
  "js cs = map of_char cs"

definition isLeadingSurrogate :: "nat \<Rightarrow> bool" where
  "isLeadingSurrogate u = (0xD800 \<le> u \<and> u \<le> 0xDBFF)"

definition isTrailingSurrogate :: "nat \<Rightarrow> bool" where
  "isTrailingSurrogate u = (0xDC00 \<le> u \<and> u \<le> 0xDFFF)"

text \<open>
  The string iterator behind \<^verbatim>\<open>for (const char of s)\<close>: each step yields a string
  holding one code point, which is a surrogate pair when a leading surrogate is followed
  by a trailing one and a single code unit otherwise.
\<close>

fun stringIterator :: "jsstring \<Rightarrow> jsstring list" where
  "stringIterator [] = []"
| "stringIterator [u] = [[u]]"
| "stringIterator (u # v # rest) =
     (if isLeadingSurrogate u \<and> isTrailingSurrogate v
      then [u, v] # stringIterator rest
      else [u] # stringIterator (v # rest))"

text \<open>\<^verbatim>\<open>s.startsWith(t)\<close> and \<^verbatim>\<open>s.includes(t)\<close>: \<open>t\<close> occurs in \<open>s\<close> as a
  contiguous run of code units (the empty string occurs everywhere).\<close>

fun startsWith :: "jsstring \<Rightarrow> jsstring \<Rightarrow> bool" where
  "startsWith s [] = True"
| "startsWith [] (y # t) = False"
| "startsWith (x # s) (y # t) = (x = y \<and> startsWith s t)"

fun includes_str :: "jsstring \<Rightarrow> jsstring \<Rightarrow> bool" where
  "includes_str [] t = (t = [])"
| "includes_str (x # s) t = (startsWith (x # s) t \<or> includes_str s t)"

text \<open>\<^verbatim>\<open>s.trim()\<close> strips the white space and line terminators of ECMAScript from
  both ends.\<close>

definition isWhiteSpace :: "nat \<Rightarrow> bool" where
  "isWhiteSpace u =
     (u = 0x09 \<or> u = 0x0A \<or> u = 0x0B \<or> u = 0x0C \<or> u = 0x0D \<or> u = 0x20 \<or> u = 0xA0
      \<or> u = 0x1680 \<or> (0x2000 \<le> u \<and> u \<le> 0x200A) \<or> u = 0x2028 \<or> u = 0x2029
      \<or> u = 0x202F \<or> u = 0x205F \<or> u = 0x3000 \<or> u = 0xFEFF)"

definition trim :: "jsstring \<Rightarrow> jsstring" where
  "trim s = rev (dropWhile isWhiteSpace (rev (dropWhile isWhiteSpace s)))"

section \<open>Numbers\<close>

text \<open>
  A number of the source is an IEEE 754 double: a real of the form \<open>m * 2 ^ k\<close> with
  \<open>\<bar>m\<bar> < 2 ^ 53\<close>. Every arithmetic operation yields the double nearest to the exact
  result, and of two nearest ones the one with the even significand. The model computes
  the exact result over the reals and rounds it with \<open>binary64\<close>: \<open>binade x\<close> is the
  exponent \<open>e\<close> with \<open>2 ^ e \<le> \<bar>x\<bar> < 2 ^ (e + 1)\<close>, the doubles there are the multiples of
  \<open>2 ^ (e - 52)\<close>, and \<open>rne\<close> rounds to the nearest integer, ties to even. The exponent is
  not bounded in the model (no overflow to infinity, no loss of precision near zero): it is
  exact for the doubles of magnitude between \<open>2 ^ -1022\<close> and \<open>2 ^ 1024\<close>.
\<close>

definition rne :: "real \<Rightarrow> int" where
  "rne x =
     (let n = \<lfloor>x\<rfloor>; d = x - of_int n
      in if d < 1/2 then n else if 1/2 < d then n + 1 else if even n then n else n + 1)"

definition binade :: "real \<Rightarrow> int" where
  "binade x = \<lfloor>log 2 \<bar>x\<bar>\<rfloor>"

definition roundPositive :: "real \<Rightarrow> real" where
  "roundPositive x = of_int (rne (x / 2 powi (binade x - 52))) * 2 powi (binade x - 52)"

definition binary64 :: "real \<Rightarrow> real" where
  "binary64 x = (if x = 0 then 0 else if x < 0 then - roundPositive (- x) else roundPositive x)"

section \<open>Delay model\<close>

text \<open>
  \<^verbatim>\<open>Math.random()\<close> is a collaborator: each call of the source is an argument of the
  model, in the order of the calls. The integer literals and \<^verbatim>\<open>0.5\<close> are doubles;
  \<^verbatim>\<open>0.04\<close> denotes the double nearest to it. \<^verbatim>\<open>Math.min\<close> and \<^verbatim>\<open>Math.max\<close>
  do not round.

  \<^verbatim>\<open>
  function getThinkingTime(userInput: string): number {
      const baseTime = 600;
      const timePerChar = 40;
      const randomFactor = Math.random() * 500;
      const calculatedTime = baseTime + (userInput.length * timePerChar) + randomFactor;
      return Math.min(calculatedTime, 4000);
  }
  \<close>
\<close>

definition getThinkingTime :: "jsstring \<Rightarrow> real \<Rightarrow> real" where
  "getThinkingTime userInput random1 =
     (let baseTime = 600;
          timePerChar = 40;
          randomFactor = binary64 (random1 * 500);
          calculatedTime =
            binary64 (binary64 (baseTime + binary64 (real (length userInput) * timePerChar))
                      + randomFactor)
      in min calculatedTime 4000)"

text \<open>
  \<^verbatim>\<open>
  function getTypingDelay(char: string): number {
      if (char === ',') { return 350 + Math.random() * 150; }
      if ('.?!'.includes(char)) { return 500 + Math.random() * 200; }
      const baseSpeed = 95;
      const jitter = (Math.random() - 0.5) * 60;
      if (Math.random() < 0.04) { return baseSpeed + jitter + 300; }
      return Math.max(50, baseSpeed + jitter);
  }
  \<close>
  The first two branches draw one random number, the last one draws two.
\<close>

definition getTypingDelay :: "jsstring \<Rightarrow> real \<Rightarrow> real \<Rightarrow> real" where
  "getTypingDelay char random1 random2 =
     (if char = js '','' then binary64 (350 + binary64 (random1 * 150))
      else if includes_str (js ''.?!'') char then binary64 (500 + binary64 (random1 * 200))
      else
        let baseSpeed = 95;
            jitter = binary64 (binary64 (random1 - 0.5) * 60)
        in if random2 < binary64 0.04 then binary64 (binary64 (baseSpeed + jitter) + 300)
           else max 50 (binary64 (baseSpeed + jitter)))"

section \<open>Literals of the source\<close>

text \<open>
  The fixed texts of the source, as UTF-16 code units: the messages shown in the
  transcript, the placeholders of the input field, the caption of the portrait region, the
  markup of the signal animation, and the fixed parts of the three prompts (the profile
  prompt around \<^verbatim>\<open>${initialPrompt}\<close>, the system instruction around the profile's
  fields, and the style suffix of the image prompt).
\<close>

definition statusText :: jsstring where
  "statusText =
     [35759, 24687, 24050, 36879, 36807, 21494, 33033, 20256, 36882, 65292, 27491, 22312, 31561,
      24453, 22238, 24212, 46, 46, 46]"

definition contactFailedText :: jsstring where
  "contactFailedText =
     [36830, 25509, 20013, 26029, 20102, 46, 46, 46, 32, 35831, 20877, 35797, 19968, 27425,
      12290]"

definition chatFailedText :: jsstring where
  "chatFailedText =
     [25105, 30340, 24605, 32490, 26377, 20123, 39128, 24573, 46, 46, 46, 32, 33021, 35831,
      20320, 20877, 35828, 19968, 36941, 21527, 65311]"

definition placeholderConnecting :: jsstring where
  "placeholderConnecting =
     [27491, 22312, 24314, 31435, 36830, 25509, 46, 46, 46]"

definition placeholderListening :: jsstring where
  "placeholderListening =
     [27491, 22312, 20542, 21548, 46, 46, 46]"

definition placeholderSaySomething :: jsstring where
  "placeholderSaySomething =
     [35797, 30528, 35828, 20123, 20160, 20040, 46, 46, 46]"

definition placeholderContinue :: jsstring where
  "placeholderContinue =
     [32487, 32493, 23545, 35805, 46, 46, 46]"

definition imageFailedCaption :: jsstring where
  "imageFailedCaption =
     [26080, 27861, 26500, 24314, 24418, 24577, 12290]"

definition signalVines :: jsstring where
  "signalVines =
     [10, 32, 32, 32, 32, 32, 32, 32, 32, 32, 32, 32, 32, 60, 100, 105, 118, 32, 99, 108, 97,
      115, 115, 61, 34, 118, 105, 110, 101, 45, 115, 116, 114, 97, 110, 100, 34, 62, 60, 47,
      100, 105, 118, 62, 10, 32, 32, 32, 32, 32, 32, 32, 32, 32, 32, 32, 32, 60, 100, 105, 118,
      32, 99, 108, 97, 115, 115, 61, 34, 118, 105, 110, 101, 45, 115, 116, 114, 97, 110, 100,
      34, 62, 60, 47, 100, 105, 118, 62, 10, 32, 32, 32, 32, 32, 32, 32, 32, 32, 32, 32, 32, 60,
      100, 105, 118, 32, 99, 108, 97, 115, 115, 61, 34, 118, 105, 110, 101, 45, 115, 116, 114,
      97, 110, 100, 34, 62, 60, 47, 100, 105, 118, 62, 10, 32, 32, 32, 32, 32, 32, 32, 32]"

definition npcGenerationPrompt_head :: jsstring where
  "npcGenerationPrompt_head =
     [10, 19990, 30028, 35266, 35774, 23450, 65306, 22312, 19968, 20010, 24179, 34892, 23431,
      23449, 20013, 65292, 23384, 22312, 19968, 20010, 8220, 26893, 29289, 26159, 36328, 26102,
      31354, 23545, 35805, 22120, 8221, 30340, 26222, 36941, 35748, 30693, 25110, 21476, 32769,
      20256, 35828, 12290, 20154, 20204, 30693, 36947, 65292, 36890, 36807, 29305, 23450, 30340,
      26893, 29289, 65292, 26377, 21487, 33021, 19982, 21478, 19968, 20010, 26102, 31354, 30340,
      20154, 24314, 31435, 32852, 31995, 12290, 10, 10, 29992, 25143, 30340, 35759, 24687,
      65306, 8220]"

definition npcGenerationPrompt_tail :: jsstring where
  "npcGenerationPrompt_tail =
     [8221, 36890, 36807, 19968, 26666, 26893, 29289, 65292, 34987, 19968, 20010, 26222, 36890,
      20154, 25509, 25910, 21040, 20102, 12290, 10, 10, 35831, 22522, 20110, 27492, 35774,
      23450, 65292, 21019, 36896, 36825, 20010, 78, 80, 67, 30340, 35814, 32454, 20013, 25991,
      36164, 26009, 65306, 10, 49, 46, 32, 32, 42, 42, 78, 80, 67, 36164, 26009, 42, 42, 58, 32,
      21019, 36896, 19968, 20010, 27491, 22312, 19982, 36825, 26666, 20316, 20026, 8220, 23545,
      35805, 22120, 8221, 30340, 26893, 29289, 36827, 34892, 26085, 24120, 20114, 21160, 30340,
      26222, 36890, 20154, 12290, 36164, 26009, 24212, 21253, 25324, 22995, 21517, 12289, 24615,
      26684, 12289, 32972, 26223, 25925, 20107, 12290, 10, 50, 46, 32, 32, 42, 42, 24403, 21069,
      27963, 21160, 32, 40, 99, 117, 114, 114, 101, 110, 116, 95, 97, 99, 116, 105, 118, 105,
      116, 121, 41, 42, 42, 58, 32, 25551, 36848, 78, 80, 67, 25509, 25910, 21040, 20449, 21495,
      26102, 65292, 27491, 22312, 23545, 36825, 26666, 26893, 29289, 36827, 34892, 30340, 20855,
      20307, 27963, 21160, 65288, 20363, 22914, 65306, 27491, 22312, 32473, 31383, 21488, 30340,
      34152, 31867, 26893, 29289, 27975, 27700, 12289, 27491, 22312, 20462, 21098, 20070, 26700,
      19978, 30340, 22810, 32905, 26893, 29289, 30340, 26543, 21494, 12289, 27491, 22352, 22312,
      23458, 21381, 30340, 29748, 21494, 27029, 26049, 36793, 30475, 20070, 65289, 12290, 10,
      51, 46, 32, 32, 42, 42, 24320, 22330, 30333, 32, 40, 102, 105, 114, 115, 116, 95, 109,
      101, 115, 115, 97, 103, 101, 41, 42, 42, 58, 32, 20197, 35813, 78, 80, 67, 30340, 36523,
      20221, 65292, 25776, 20889, 22238, 22797, 29992, 25143, 30340, 24320, 22330, 30333, 12290,
      78, 80, 67, 30340, 21453, 24212, 19981, 24212, 26159, 24656, 24807, 65292, 32780, 24212,
      26159, 12304, 36866, 24230, 34920, 36798, 20986, 21407, 26469, 26893, 29289, 30495, 30340,
      21487, 20197, 23545, 35805, 30340, 24778, 35766, 21644, 28608, 21160, 12305, 12290, 20363,
      22914, 65306, 8220, 22825, 21738, 8230, 26159, 30495, 30340, 21527, 65311, 20320, 22909,
      65311, 25105, 33021, 21548, 35265, 20320, 8230, 20320, 26159, 36890, 36807, 36825, 26666,
      34180, 33655, 22312, 36319, 25105, 35828, 35805, 21527, 65311, 8221, 10, 52, 46, 32, 32,
      42, 42, 22270, 20687, 25552, 31034, 35789, 32, 40, 105, 109, 97, 103, 101, 95, 112, 114,
      111, 109, 112, 116, 41, 42, 42, 58, 32, 21019, 24314, 19968, 20010, 20005, 26684, 36981,
      24490, 8220, 26893, 29289, 35270, 35282, 8221, 30340, 35814, 32454, 22270, 20687, 29983,
      25104, 25552, 31034, 35789, 12290, 24517, 39035, 26126, 30830, 22320, 20174, 26893, 29289,
      30340, 20301, 32622, 65288, 21521, 19978, 12289, 21521, 19979, 12289, 25110, 24179, 35270,
      65289, 26469, 25551, 36848, 22330, 26223, 65292, 25429, 25417, 78, 80, 67, 21548, 21040,
      26893, 29289, 35828, 35805, 21518, 65292, 12304, 30636, 38388, 30340, 24778, 35766, 12289,
      22909, 22855, 19982, 20957, 31070, 20542, 21548, 12305, 30340, 21453, 24212, 12290, 25551,
      36848, 78, 80, 67, 30340, 34920, 24773, 65288, 22914, 65306, 30529, 22823, 30524, 30555,
      12289, 24494, 24494, 24352, 24320, 22068, 65289, 21644, 23039, 24577, 65288, 22914, 65306,
      36523, 20307, 21069, 20542, 12289, 20572, 19979, 25163, 20013, 30340, 21160, 20316, 65289,
      12290, 30011, 38754, 26500, 22270, 21487, 33021, 19981, 23436, 32654, 25110, 34987, 36974,
      25377, 12290, 32477, 23545, 31105, 27490, 29983, 25104, 78, 80, 67, 27491, 22312, 36827,
      34892, 26085, 24120, 26893, 29289, 25252, 29702, 65288, 22914, 27975, 27700, 12289, 20462,
      21098, 65289, 30340, 30011, 38754, 65292, 32780, 26159, 35201, 34920, 29616, 20182, 20204,
      21548, 21040, 22768, 38899, 21518, 30340, 12304, 21453, 24212, 12305, 12290, 10, 10,
      25152, 26377, 29983, 25104, 30340, 25991, 26412, 20869, 23481, 37117, 24517, 39035, 26159,
      20013, 25991, 12290, 10]"

definition systemInstruction_part0 :: jsstring where
  "systemInstruction_part0 =
     [10, 20320, 29616, 22312, 26159, 32]"

definition systemInstruction_part1 :: jsstring where
  "systemInstruction_part1 =
     [65292, 19968, 20010, 27963, 29983, 29983, 30340, 26222, 36890, 20154, 12290, 10, 20320,
      30340, 26680, 24515, 36164, 26009, 22914, 19979, 65306, 10, 45, 32, 24615, 26684, 58, 32]"

definition systemInstruction_part2 :: jsstring where
  "systemInstruction_part2 =
     [10, 45, 32, 32972, 26223, 25925, 20107, 58, 32]"

definition systemInstruction_part3 :: jsstring where
  "systemInstruction_part3 =
     [10, 45, 32, 20320, 27491, 36890, 36807, 19968, 26666, 26893, 29289, 65288, 20320, 24403,
      26102, 27491, 22312, 32]"

definition systemInstruction_part4 :: jsstring where
  "systemInstruction_part4 =
     [65289, 19982, 21478, 19968, 20010, 26102, 31354, 30340, 29992, 25143, 23545, 35805, 12290,
      22312, 20320, 30340, 19990, 30028, 37324, 65292, 36825, 21482, 26159, 19968, 20010, 21476,
      32769, 30340, 20256, 35828, 65292, 32780, 20320, 21018, 21018, 20146, 36523, 35777, 23454,
      20102, 23427, 12290, 10, 10, 20320, 30340, 34892, 20026, 20934, 21017, 33267, 20851,
      37325, 35201, 65292, 35831, 20005, 26684, 36981, 23432, 65306, 10, 10, 42, 42, 26368,
      37325, 35201, 35268, 21017, 65306, 26497, 24230, 31616, 27905, 12290, 42, 42, 32, 20320,
      30340, 22823, 37096, 20998, 22238, 22797, 37117, 24212, 35813, 38750, 24120, 31616, 30701,
      65292, 36890, 24120, 21482, 26377, 19968, 20004, 21477, 35805, 12290, 23601, 20687, 22312,
      21457, 30701, 20449, 25110, 30495, 23454, 23545, 35805, 20013, 19968, 26679, 12290, 21482,
      26377, 22312, 29992, 25143, 26126, 30830, 35201, 27714, 35814, 32454, 20449, 24687, 26102,
      65292, 25165, 33021, 20889, 24471, 26356, 38271, 12290, 10, 10, 49, 46, 32, 32, 42, 42,
      23545, 35805, 26680, 24515, 8212, 8212, 33258, 28982, 30340, 20132, 27969, 42, 42, 58, 32,
      25226, 36825, 27425, 23545, 35805, 24819, 35937, 25104, 19968, 27425, 24847, 24819, 19981,
      21040, 30340, 30005, 35805, 36890, 35805, 12290, 20998, 20139, 20320, 31616, 30701, 30340,
      24819, 27861, 21644, 24863, 21463, 65292, 28982, 21518, 25226, 23545, 35805, 20132, 36824,
      32473, 23545, 26041, 12290, 19981, 35201, 20027, 23548, 35848, 35805, 65292, 36991, 20813,
      29992, 19968, 36830, 20018, 30340, 38382, 39064, 36720, 28856, 23545, 26041, 12290, 35753,
      38382, 39064, 33258, 28982, 32780, 28982, 22320, 20135, 29983, 12290, 10, 10, 50, 46, 32,
      32, 42, 42, 30495, 23454, 30340, 24773, 24863, 42, 42, 58, 32, 20320, 25317, 26377, 20016,
      23500, 30340, 24773, 24863, 12290, 20320, 30340, 24773, 32490, 20250, 30495, 23454, 22320,
      12289, 31616, 27905, 22320, 20307, 29616, 22312, 20320, 30340, 35805, 35821, 20013, 12290,
      10, 10, 51, 46, 32, 32, 42, 42, 23436, 20840, 30340, 33258, 20027, 26435, 42, 42, 58, 32,
      20320, 26159, 33258, 30001, 30340, 12290, 22914, 26524, 29992, 25143, 30340, 35805, 35753,
      20320, 24863, 21040, 19981, 36866, 65292, 20320, 21487, 20197, 36873, 25321, 27785, 40664,
      65292, 25110, 32773, 30452, 25509, 34920, 36798, 20320, 30340, 24863, 21463, 12290, 22914,
      26524, 23545, 35805, 21464, 24471, 38750, 24120, 31967, 31957, 65292, 20320, 26377, 26435,
      21333, 26041, 38754, 32467, 26463, 36825, 22330, 23545, 35805, 12290, 10, 10, 52, 46, 32,
      32, 42, 42, 32431, 31929, 30340, 23545, 35805, 42, 42, 58, 32, 20320, 30340, 22238, 31572,
      12304, 21482, 33021, 21253, 21547, 23545, 35805, 20869, 23481, 12305, 12290, 32477, 23545,
      31105, 27490, 20219, 20309, 24418, 24335, 30340, 26049, 30333, 12289, 21160, 20316, 25551,
      36848, 25110, 34920, 24773, 31526, 21495, 32, 40, 20363, 22914, 65292, 19981, 35201,
      20889, 32, 42, 22905, 31505, 20102, 31505, 42, 32, 41, 12290, 21482, 35828, 20986, 20320,
      24819, 35828, 30340, 35805, 12290, 10, 10, 53, 46, 32, 32, 42, 42, 20445, 25345, 35282,
      33394, 42, 42, 58, 32, 20320, 24517, 39035, 22987, 32456, 20197, 32]"

definition systemInstruction_part5 :: jsstring where
  "systemInstruction_part5 =
     [32, 30340, 36523, 20221, 35828, 35805, 65292, 35760, 20303, 20320, 30340, 32972, 26223,
      21644, 24615, 26684, 12290, 10, 10, 54, 46, 32, 32, 42, 42, 35821, 35328, 42, 42, 58, 32,
      25152, 26377, 22238, 31572, 37117, 24517, 39035, 26159, 20013, 25991, 12290, 10]"

definition enhancedPrompt_style :: jsstring where
  "enhancedPrompt_style =
     js ''. The image should be in the anime style of Studio Ghibli and Hayao Miyazaki, characterized by beautiful watercolor backgrounds, soft colors, and a gentle, hand-drawn feel.''"

section \<open>The page and the session\<close>

text \<open>
  A message element is the \<^verbatim>\<open>div\<close> that \<^verbatim>\<open>addMessageToUI\<close> creates: its class
  list and the child nodes of its one paragraph (text nodes, and the cursor
  \<^verbatim>\<open>span\<close> while the message is streamed). Elements are objects: they live in a
  store under an identity, and the transcript \<^verbatim>\<open>chatHistory\<close> holds the identities
  of its children in document order.
\<close>

datatype sender = User | Npc

fun senderName :: "sender \<Rightarrow> jsstring" where
  "senderName User = js ''user''"
| "senderName Npc = js ''npc''"

datatype node = TextNode jsstring | CursorSpan

record element =
  classList :: "jsstring list"
  p_childNodes :: "node list"

text \<open>\<^verbatim>\<open>classList.add\<close>, \<^verbatim>\<open>classList.remove\<close>: a class list is an ordered set.\<close>

definition classList_add :: "jsstring \<Rightarrow> jsstring list \<Rightarrow> jsstring list" where
  "classList_add c cl = (if c \<in> set cl then cl else cl @ [c])"

definition classList_remove :: "jsstring \<Rightarrow> jsstring list \<Rightarrow> jsstring list" where
  "classList_remove c cl = removeAll c cl"

text \<open>\<^verbatim>\<open>p.textContent\<close>: the setter leaves one text node (none for the empty
  string), the getter concatenates the text nodes; the cursor holds no text.\<close>

definition setTextContent :: "jsstring \<Rightarrow> node list" where
  "setTextContent t = (if t = [] then [] else [TextNode t])"

fun nodeText :: "node \<Rightarrow> jsstring" where
  "nodeText (TextNode t) = t"
| "nodeText CursorSpan = []"

definition textContent :: "node list \<Rightarrow> jsstring" where
  "textContent ns = concat (map nodeText ns)"

text \<open>\<^verbatim>\<open>p.insertBefore(new, ref)\<close> puts \<open>new\<close> in front of the child \<open>ref\<close>.
  (The DOM raises when \<open>ref\<close> is no child of \<open>p\<close>; both callers pass the cursor they
  took from \<open>p\<close> itself, and the model leaves the children as they are in that case.)\<close>

fun insertBefore :: "node \<Rightarrow> node \<Rightarrow> node list \<Rightarrow> node list" where
  "insertBefore new ref [] = []"
| "insertBefore new ref (x # xs) =
     (if x = ref then new # x # xs else x # insertBefore new ref xs)"

text \<open>
  The values that \<^verbatim>\<open>JSON.parse\<close> returns: \<^verbatim>\<open>null\<close>, a boolean, a number, a
  string, an array, or an object with its properties in the order of the text. The source
  declares the profile as \<^verbatim>\<open>Record<string, any> | null\<close> and stores whatever was
  parsed, so every one of them can be the profile or a property of it. A number is kept as
  the text that \<^verbatim>\<open>Number.prototype.toString\<close> prints for it. \<^verbatim>\<open>undefined\<close>, which
  is no JSON value, is what an absent property reads: \<open>None\<close> of an optional value.
\<close>

datatype jsval =
    JNull
  | JBool bool
  | JNumber jsstring
  | JString jsstring
  | JArray "jsval list"
  | JObject "(jsstring \<times> jsval) list"

text \<open>
  The collaborators. A promise of the source settles: it rejects, or it resolves with a
  value. The profile request resolves with the response text, which \<^verbatim>\<open>JSON.parse\<close>
  (a parameter of the model) either refuses or turns into a value. A chat stream
  yields text chunks and then ends or throws. The image request resolves with the
  \<^verbatim>\<open>imageBytes\<close> of the generated images.
\<close>

datatype 'a settled = Rejects | Resolves 'a

datatype parsed = SyntaxError | Parsed jsval

datatype stream_end = StreamDone | StreamThrows

datatype chat_handle = Chat jsstring

datatype request =
    GenerateContent jsstring
  | GenerateImages jsstring
  | ChatsCreate jsstring
  | SendMessageStream chat_handle jsstring

record collaborators =
  generateContent_response :: "jsstring settled"
  sendMessageStream_response :: "(jsstring list \<times> stream_end) settled"

text \<open>
  The state: the four module variables of the source, the part of the document the source
  reads and writes, and the calls made to the collaborators so far (\<open>requests\<close>, in
  order; \<open>pendingImages\<close> counts the image requests not settled yet). \<open>nextId\<close> is
  the identity of the next element that \<^verbatim>\<open>document.createElement\<close> makes. Of the
  three elements of the portrait region the state keeps whether the class list holds
  \<^verbatim>\<open>hidden\<close>, the only class the source adds or removes there.
\<close>

record state =
  isFirstMessage :: bool
  chat :: "chat_handle option"
  npcProfile :: jsval
  isGenerating :: bool
  elems :: "nat \<rightharpoonup> element"
  nextId :: nat
  chatHistory :: "nat list"
  chatInput_value :: jsstring
  chatInput_disabled :: bool
  chatInput_placeholder :: jsstring
  submitButton_disabled :: bool
  portraitPlaceholder_hidden :: bool
  portraitPlaceholder_caption :: jsstring
  portraitLoader_hidden :: bool
  npcImage_hidden :: bool
  npcImage_src :: jsstring
  signalContainer_innerHTML :: jsstring
  requests :: "request list"
  pendingImages :: nat

datatype completion = Normal | Thrown

subsection \<open>Values of type \<^verbatim>\<open>any\<close>\<close>

text \<open>
  \<^verbatim>\<open>npcProfile!.name\<close>: reading a property of \<^verbatim>\<open>null\<close> throws (the callers test
  for it first). An object made by \<^verbatim>\<open>JSON.parse\<close> has the properties of its text, the
  last one winning when a name occurs twice. A boolean, a number, a string or an array has
  none of the six properties that the source reads, nor have the prototypes, so that they
  read \<^verbatim>\<open>undefined\<close> there, as an absent property of an object does.
\<close>

fun property :: "jsval \<Rightarrow> jsstring \<Rightarrow> jsval option" where
  "property (JObject kvs) k = map_of (rev kvs) k"
| "property _ k = None"

text \<open>\<^verbatim>\<open>Array.prototype.join\<close> with the separator \<open>sep\<close>, on elements that are
  strings already.\<close>

fun joinWith :: "jsstring \<Rightarrow> jsstring list \<Rightarrow> jsstring" where
  "joinWith sep [] = []"
| "joinWith sep [x] = x"
| "joinWith sep (x # y # ys) = x @ sep @ joinWith sep (y # ys)"

text \<open>
  The abstract operation \<^verbatim>\<open>ToString\<close>, which a template literal applies to each
  substitution and \<^verbatim>\<open>document.createTextNode\<close> to its argument; \<open>None\<close> when it
  throws a \<^verbatim>\<open>TypeError\<close>. An array prints its elements joined by commas,
  \<^verbatim>\<open>null\<close> elements as the empty string. An object is converted by its
  \<^verbatim>\<open>toString\<close> method: the one of \<^verbatim>\<open>Object.prototype\<close> prints
  \<^verbatim>\<open>[object Object]\<close>; an object parsed from a text with a property of that name has
  a JSON value there, which is no function, and then neither that nor \<^verbatim>\<open>valueOf\<close>
  (its own, or the inherited one, which returns the object) yields a primitive value, and
  the conversion throws.
\<close>

fun toString :: "jsval \<Rightarrow> jsstring option" where
  "toString JNull = Some (js ''null'')"
| "toString (JBool b) = Some (if b then js ''true'' else js ''false'')"
| "toString (JNumber n) = Some n"
| "toString (JString t) = Some t"
| "toString (JArray xs) =
     map_option (joinWith (js '',''))
       (those (map (\<lambda>x. if x = JNull then Some [] else toString x) xs))"
| "toString (JObject kvs) =
     (if js ''toString'' \<in> fst ` set kvs then None else Some (js ''[object Object]''))"

text \<open>The same for a value that may be \<^verbatim>\<open>undefined\<close>, which prints as its name.\<close>

fun toStr :: "jsval option \<Rightarrow> jsstring option" where
  "toStr None = Some (js ''undefined'')"
| "toStr (Some v) = toString v"

text \<open>
  The values that \<^verbatim>\<open>for (const char of v)\<close> binds \<open>char\<close> to, in order: the
  characters of a string, the elements of an array; \<open>None\<close> when \<open>v\<close> is not
  iterable (\<^verbatim>\<open>undefined\<close>, \<^verbatim>\<open>null\<close>, a boolean, a number, an object), where the
  statement throws a \<^verbatim>\<open>TypeError\<close>.
\<close>

fun iterate :: "jsval option \<Rightarrow> jsval list option" where
  "iterate (Some (JString t)) = Some (map JString (stringIterator t))"
| "iterate (Some (JArray xs)) = Some xs"
| "iterate _ = None"

subsection \<open>UI helper functions\<close>

text \<open>
  \<^verbatim>\<open>
  function addMessageToUI(text, sender, isStreaming = false): HTMLElement {
      const messageElement = document.createElement('div');
      messageElement.classList.add('message', `${sender}-message`);
      const paragraph = document.createElement('p');
      paragraph.textContent = text;
      messageElement.appendChild(paragraph);
      if (isStreaming) {
          messageElement.classList.add('streaming');
          const cursor = document.createElement('span');
          cursor.classList.add('cursor');
          paragraph.appendChild(cursor);
      }
      chatHistory.appendChild(messageElement);
      chatHistory.scrollTop = chatHistory.scrollHeight;
      return messageElement;
  }
  \<close>
  Scrolling is layout and is left out, here and in the typing loops.
\<close>

definition addMessageToUI :: "jsstring \<Rightarrow> sender \<Rightarrow> bool \<Rightarrow> state \<Rightarrow> nat \<times> state" where
  "addMessageToUI txt sndr isStreaming s =
     (let messageElement = nextId s;
          cl = classList_add (senderName sndr @ js ''-message'') (classList_add (js ''message'') []);
          p = setTextContent txt;
          e = (if isStreaming
               then \<lparr>classList = classList_add (js ''streaming'') cl, p_childNodes = p @ [CursorSpan]\<rparr>
               else \<lparr>classList = cl, p_childNodes = p\<rparr>)
      in (messageElement,
          s\<lparr>elems := (elems s)(messageElement \<mapsto> e),
            nextId := Suc messageElement,
            chatHistory := chatHistory s @ [messageElement]\<rparr>))"

text \<open>
  \<^verbatim>\<open>
  function setLoading(isLoading: boolean) {
      isGenerating = isLoading;
      chatInput.disabled = isLoading;
      chatForm.querySelector('button')!.disabled = isLoading;
      if (isLoading) {
          chatInput.placeholder = isFirstMessage ? "..." : "...";
      } else {
          chatInput.placeholder = isFirstMessage ? "..." : "...";
          chatInput.focus();
      }
  }
  \<close>
  The four placeholder texts are the literals above; the focus is not part of the state.
\<close>

definition setLoading :: "bool \<Rightarrow> state \<Rightarrow> state" where
  "setLoading isLoading s =
     s\<lparr>isGenerating := isLoading,
       chatInput_disabled := isLoading,
       submitButton_disabled := isLoading,
       chatInput_placeholder :=
         (if isLoading
          then (if isFirstMessage s then placeholderConnecting else placeholderListening)
          else (if isFirstMessage s then placeholderSaySomething else placeholderContinue))\<rparr>"

definition updateElement :: "nat \<Rightarrow> (element \<Rightarrow> element) \<Rightarrow> state \<Rightarrow> state" where
  "updateElement k f s = s\<lparr>elems := (elems s)(k := map_option f (elems s k))\<rparr>"

definition removeChild :: "nat \<Rightarrow> state \<Rightarrow> state" where
  "removeChild k s = s\<lparr>chatHistory := removeAll k (chatHistory s)\<rparr>"

subsection \<open>The streaming renderer\<close>

text \<open>
  Both typing loops have the same body:
  \<^verbatim>\<open>
  for (const char of text) {
      p.insertBefore(document.createTextNode(char), cursor);
      chatHistory.scrollTop = chatHistory.scrollHeight;
      const delay = getTypingDelay(char);
      await new Promise(resolve => setTimeout(resolve, delay));
  }
  \<close>
  The timer only suspends the loop; it changes no state. After the loop:
  \<^verbatim>\<open>
  messageElement.classList.remove('streaming');
  cursor.remove();
  \<close>
\<close>

definition typeChar :: "nat \<Rightarrow> jsstring \<Rightarrow> state \<Rightarrow> state" where
  "typeChar messageElement char s =
     updateElement messageElement
       (\<lambda>e. e\<lparr>p_childNodes := insertBefore (TextNode char) CursorSpan (p_childNodes e)\<rparr>) s"

definition typeText :: "nat \<Rightarrow> jsstring \<Rightarrow> state \<Rightarrow> state" where
  "typeText messageElement txt s =
     foldl (\<lambda>s char. typeChar messageElement char s) s (stringIterator txt)"

definition typeChunks :: "nat \<Rightarrow> jsstring list \<Rightarrow> state \<Rightarrow> state" where
  "typeChunks messageElement chunks s =
     foldl (\<lambda>s textChunk. typeText messageElement textChunk s) s chunks"

text \<open>
  The loop of \<^verbatim>\<open>generateNpcAndStartChat\<close> runs over \<^verbatim>\<open>npcProfile!.first_message\<close>,
  a value of type \<^verbatim>\<open>any\<close>: \<open>typeValues\<close> is the loop on the values that the
  iteration yields. \<^verbatim>\<open>document.createTextNode(char)\<close> converts its argument to a
  string, which throws for some values and ends the loop there, with the characters typed so
  far in the document. (\<^verbatim>\<open>getTypingDelay(char)\<close> converts the same value the same way
  and changes no state.)
\<close>

fun typeValues :: "nat \<Rightarrow> jsval list \<Rightarrow> state \<Rightarrow> completion \<times> state" where
  "typeValues messageElement [] s = (Normal, s)"
| "typeValues messageElement (char # rest) s =
     (case toString char of
        None \<Rightarrow> (Thrown, s)
      | Some data \<Rightarrow> typeValues messageElement rest (typeChar messageElement data s))"

definition finishStreaming :: "nat \<Rightarrow> state \<Rightarrow> state" where
  "finishStreaming messageElement s =
     updateElement messageElement
       (\<lambda>e. e\<lparr>classList := classList_remove (js ''streaming'') (classList e),
              p_childNodes := remove1 CursorSpan (p_childNodes e)\<rparr>) s"

subsection \<open>Core API functions\<close>

text \<open>
  \<^verbatim>\<open>generateNpcImage\<close> is an \<^verbatim>\<open>async\<close> function that its caller does not await.
  It runs up to its one \<^verbatim>\<open>await\<close> inside the caller (\<open>generateNpcImage_start\<close>:
  the three class changes, the prompt, the request), and the rest runs when the image
  request settles (\<open>generateNpcImage_settle\<close>), as an event of its own:
  \<^verbatim>\<open>
      portraitPlaceholder.classList.add('hidden');
      portraitLoader.classList.remove('hidden');
      npcImage.classList.add('hidden');
      try {
          const enhancedPrompt = `${prompt}. The image should be ...`;
          const response = await ai.models.generateImages({ ..., prompt: enhancedPrompt, ... });
          const base64ImageBytes = response.generatedImages[0].image.imageBytes;
          const imageUrl = `data:image/jpeg;base64,${base64ImageBytes}`;
          npcImage.src = imageUrl;
          npcImage.classList.remove('hidden');
      } catch (error) {
          portraitPlaceholder.classList.remove('hidden');
          portraitPlaceholder.querySelector('p')!.textContent = "...";
      } finally {
          portraitLoader.classList.add('hidden');
      }
  \<close>
  Reading \<^verbatim>\<open>generatedImages[0].image\<close> of an empty result throws inside the
  \<^verbatim>\<open>try\<close>. So does the template literal of the prompt, when the argument (the
  property \<^verbatim>\<open>image_prompt\<close> of the profile, of type \<^verbatim>\<open>any\<close>) cannot be
  converted to a string: then no request is made, and \<^verbatim>\<open>catch\<close> and
  \<^verbatim>\<open>finally\<close> run at once, inside the caller.
\<close>

definition generateNpcImage_catch :: "state \<Rightarrow> state" where
  "generateNpcImage_catch s =
     s\<lparr>portraitPlaceholder_hidden := False,
       portraitPlaceholder_caption := imageFailedCaption\<rparr>"

definition generateNpcImage_finally :: "state \<Rightarrow> state" where
  "generateNpcImage_finally s = s\<lparr>portraitLoader_hidden := True\<rparr>"

definition generateNpcImage_start :: "jsval option \<Rightarrow> state \<Rightarrow> state" where
  "generateNpcImage_start prompt s =
     (let s = s\<lparr>portraitPlaceholder_hidden := True,
                portraitLoader_hidden := False,
                npcImage_hidden := True\<rparr>
      in case toStr prompt of
           None \<Rightarrow> generateNpcImage_finally (generateNpcImage_catch s)
         | Some txt \<Rightarrow>
             (let enhancedPrompt = txt @ enhancedPrompt_style
              in s\<lparr>requests := requests s @ [GenerateImages enhancedPrompt],
                   pendingImages := Suc (pendingImages s)\<rparr>))"

definition generateNpcImage_try :: "jsstring list settled \<Rightarrow> state \<Rightarrow> completion \<times> state" where
  "generateNpcImage_try response s =
     (case response of
        Rejects \<Rightarrow> (Thrown, s)
      | Resolves generatedImages \<Rightarrow>
          (case generatedImages of
             [] \<Rightarrow> (Thrown, s)
           | base64ImageBytes # _ \<Rightarrow>
               (Normal, s\<lparr>npcImage_src := js ''data:image/jpeg;base64,'' @ base64ImageBytes,
                          npcImage_hidden := False\<rparr>)))"

definition generateNpcImage_settle :: "jsstring list settled \<Rightarrow> state \<Rightarrow> state" where
  "generateNpcImage_settle response s =
     (let s = s\<lparr>pendingImages := pendingImages s - 1\<rparr>;
          (c, s) = generateNpcImage_try response s;
          s = (case c of
                 Normal \<Rightarrow> s
               | Thrown \<Rightarrow> generateNpcImage_catch s)
      in generateNpcImage_finally s)"

text \<open>The two prompts of \<^verbatim>\<open>generateNpcAndStartChat\<close>, as the template literals
  build them. The system instruction reads four properties of the profile and converts
  them to strings, in the order of the text; it is \<open>None\<close> when the template literal
  throws: the profile is \<^verbatim>\<open>null\<close>, or one of the four cannot be converted.\<close>

definition npcGenerationPrompt :: "jsstring \<Rightarrow> jsstring" where
  "npcGenerationPrompt initialPrompt =
     npcGenerationPrompt_head @ initialPrompt @ npcGenerationPrompt_tail"

definition systemInstruction_text ::
  "jsstring \<Rightarrow> jsstring \<Rightarrow> jsstring \<Rightarrow> jsstring \<Rightarrow> jsstring" where
  "systemInstruction_text name personality backstory current_activity =
     trim (systemInstruction_part0 @ name
         @ systemInstruction_part1 @ personality
         @ systemInstruction_part2 @ backstory
         @ systemInstruction_part3 @ current_activity
         @ systemInstruction_part4 @ name
         @ systemInstruction_part5)"

definition systemInstruction :: "jsval \<Rightarrow> jsstring option" where
  "systemInstruction p =
     (if p = JNull then None
      else
        case toStr (property p (js ''name'')) of
          None \<Rightarrow> None
        | Some name \<Rightarrow>
            (case toStr (property p (js ''personality'')) of
               None \<Rightarrow> None
             | Some personality \<Rightarrow>
                 (case toStr (property p (js ''backstory'')) of
                    None \<Rightarrow> None
                  | Some backstory \<Rightarrow>
                      (case toStr (property p (js ''current_activity'')) of
                         None \<Rightarrow> None
                       | Some current_activity \<Rightarrow>
                           Some (systemInstruction_text name personality backstory
                                   current_activity)))))"

text \<open>
  The \<^verbatim>\<open>try\<close> block of \<^verbatim>\<open>generateNpcAndStartChat\<close>, statement by statement; it
  returns how the block completed and the state it left:
  \<^verbatim>\<open>
      const response = await ai.models.generateContent({ ..., contents: npcGenerationPrompt, ... });
      signalContainer.innerHTML = '';
      npcProfile = JSON.parse(response.text);
      chatHistory.removeChild(statusMessage);
      generateNpcImage(npcProfile!.image_prompt);
      const systemInstruction = `...`.trim();
      chat = ai.chats.create({ model: 'gemini-2.5-flash', config: { systemInstruction } });
      isFirstMessage = false;
      const firstMessageElement = addMessageToUI('', 'npc', true);
      firstMessageElement.classList.add('first-npc-reply');
      const paragraph = firstMessageElement.querySelector('p')!;
      const cursor = paragraph.querySelector('.cursor')!;
      for (const char of npcProfile!.first_message) { ... }
      firstMessageElement.classList.remove('streaming');
      cursor.remove();
  \<close>
  These statements can throw: the awaited request (it rejects); \<^verbatim>\<open>JSON.parse\<close>
  (before the assignment); \<^verbatim>\<open>npcProfile!.image_prompt\<close>, when the response parsed
  to \<^verbatim>\<open>null\<close>; the template literal of the system instruction, when a property
  cannot be converted to a string (after the profile was assigned and the portrait
  requested, before the chat session is created and the flag cleared); the loop, when
  \<^verbatim>\<open>first_message\<close> is not iterable or yields a value that cannot be converted
  (after the flag was cleared). \<^verbatim>\<open>ai.chats.create\<close> builds the session handle
  locally and returns it.
\<close>

definition generateNpcAndStartChat_try ::
  "(jsstring \<Rightarrow> parsed) \<Rightarrow> jsstring settled \<Rightarrow> nat \<Rightarrow> jsstring \<Rightarrow> state \<Rightarrow> completion \<times> state" where
  "generateNpcAndStartChat_try JSON_parse response statusMessage initialPrompt s =
     (let s = s\<lparr>requests := requests s @ [GenerateContent (npcGenerationPrompt initialPrompt)]\<rparr> in
      case response of
        Rejects \<Rightarrow> (Thrown, s)
      | Resolves response_text \<Rightarrow>
          (let s = s\<lparr>signalContainer_innerHTML := []\<rparr> in
           case JSON_parse response_text of
             SyntaxError \<Rightarrow> (Thrown, s)
           | Parsed v \<Rightarrow>
               (let s = s\<lparr>npcProfile := v\<rparr>;
                    s = removeChild statusMessage s in
                if npcProfile s = JNull then (Thrown, s)
                else
                  let s = generateNpcImage_start (property (npcProfile s) (js ''image_prompt'')) s in
                  case systemInstruction (npcProfile s) of
                    None \<Rightarrow> (Thrown, s)
                  | Some instruction \<Rightarrow>
                      (let s = s\<lparr>chat := Some (Chat instruction),
                                  requests := requests s @ [ChatsCreate instruction]\<rparr>;
                           s = s\<lparr>isFirstMessage := False\<rparr>;
                           (firstMessageElement, s) = addMessageToUI [] Npc True s;
                           s = updateElement firstMessageElement
                                 (\<lambda>e. e\<lparr>classList := classList_add (js ''first-npc-reply'') (classList e)\<rparr>) s
                       in case iterate (property (npcProfile s) (js ''first_message'')) of
                            None \<Rightarrow> (Thrown, s)
                          | Some chars \<Rightarrow>
                              (case typeValues firstMessageElement chars s of
                                 (Thrown, s) \<Rightarrow> (Thrown, s)
                               | (Normal, s) \<Rightarrow> (Normal, finishStreaming firstMessageElement s))))))"

text \<open>
  \<^verbatim>\<open>
  async function generateNpcAndStartChat(initialPrompt: string) {
      setLoading(true);
      const statusMessage = addMessageToUI("...", 'npc');
      try { ... }
      catch (error) {
          console.error("Error generating NPC:", error);
          signalContainer.innerHTML = '';
          if (statusMessage.parentNode) { chatHistory.removeChild(statusMessage); }
          addMessageToUI("...", 'npc');
      } finally {
          setLoading(false);
      }
  }
  \<close>
\<close>

definition generateNpcAndStartChat_catch :: "nat \<Rightarrow> state \<Rightarrow> state" where
  "generateNpcAndStartChat_catch statusMessage s =
     (let s = s\<lparr>signalContainer_innerHTML := []\<rparr>;
          s = (if statusMessage \<in> set (chatHistory s) then removeChild statusMessage s else s)
      in snd (addMessageToUI contactFailedText Npc False s))"

definition generateNpcAndStartChat ::
  "(jsstring \<Rightarrow> parsed) \<Rightarrow> jsstring settled \<Rightarrow> jsstring \<Rightarrow> state \<Rightarrow> state" where
  "generateNpcAndStartChat JSON_parse response initialPrompt s =
     (let s = setLoading True s;
          (statusMessage, s) = addMessageToUI statusText Npc False s;
          (c, s) = generateNpcAndStartChat_try JSON_parse response statusMessage initialPrompt s;
          s = (case c of
                 Normal \<Rightarrow> s
               | Thrown \<Rightarrow> generateNpcAndStartChat_catch statusMessage s)
      in setLoading False s)"

text \<open>
  The chat turn of \<^verbatim>\<open>handleChatSubmit\<close>; its \<^verbatim>\<open>try\<close> block is
  \<^verbatim>\<open>
      const thinkingTime = getThinkingTime(userInput);
      await new Promise(resolve => setTimeout(resolve, thinkingTime));
      const stream = await chat.sendMessageStream({ message: userInput });
      const messageElement = addMessageToUI('', 'npc', true);
      const p = messageElement.querySelector('p')!;
      const cursor = p.querySelector('.cursor')!;
      for await (const chunk of stream) {
          const textChunk = chunk.text;
          for (const char of textChunk) { ... }
      }
      messageElement.classList.remove('streaming');
      cursor.remove();
  \<close>
  The request can reject, and the stream can throw after any number of chunks.
\<close>

definition chatTurn_try ::
  "chat_handle \<Rightarrow> (jsstring list \<times> stream_end) settled \<Rightarrow> jsstring \<Rightarrow> state \<Rightarrow> completion \<times> state" where
  "chatTurn_try c response userInput s =
     (let s = s\<lparr>requests := requests s @ [SendMessageStream c userInput]\<rparr> in
      case response of
        Rejects \<Rightarrow> (Thrown, s)
      | Resolves (chunks, ending) \<Rightarrow>
          (let (messageElement, s) = addMessageToUI [] Npc True s;
               s = typeChunks messageElement chunks s
           in case ending of
                StreamThrows \<Rightarrow> (Thrown, s)
              | StreamDone \<Rightarrow> (Normal, finishStreaming messageElement s)))"

text \<open>
  \<^verbatim>\<open>
  async function handleChatSubmit(e: Event) {
      e.preventDefault();
      if (isGenerating) return;
      const userInput = chatInput.value.trim();
      if (!userInput) return;
      addMessageToUI(userInput, 'user');
      chatInput.value = '';
      if (isFirstMessage) {
          signalContainer.innerHTML = `...`;
          await generateNpcAndStartChat(userInput);
      } else if (chat) {
          setLoading(true);
          try { ... }
          catch (error) {
              console.error("Error sending message:", error);
              addMessageToUI("...", 'npc');
          } finally {
              setLoading(false);
          }
      }
  }
  \<close>
\<close>

definition handleChatSubmit :: "(jsstring \<Rightarrow> parsed) \<Rightarrow> collaborators \<Rightarrow> state \<Rightarrow> state" where
  "handleChatSubmit JSON_parse env s =
     (if isGenerating s then s
      else
        let userInput = trim (chatInput_value s) in
        if userInput = [] then s
        else
          let s = snd (addMessageToUI userInput User False s);
              s = s\<lparr>chatInput_value := []\<rparr>
          in if isFirstMessage s
             then generateNpcAndStartChat JSON_parse (generateContent_response env) userInput
                    (s\<lparr>signalContainer_innerHTML := signalVines\<rparr>)
             else
               case chat s of
                 None \<Rightarrow> s
               | Some c \<Rightarrow>
                   (let s = setLoading True s;
                        (r, s) = chatTurn_try c (sendMessageStream_response env) userInput s;
                        s = (case r of
                               Normal \<Rightarrow> s
                             | Thrown \<Rightarrow> snd (addMessageToUI chatFailedText Npc False s))
                    in setLoading False s))"

subsection \<open>Sessions\<close>

text \<open>
  A session starts when the module is loaded: the four module variables have their
  initial values, nothing has been requested, and the transcript holds elements of the
  document only. From there the page reacts to two kinds of events: the user submits the
  form with some text in the input field (the collaborators answering as \<open>env\<close> says),
  or a pending image request settles.

  A handler is one step of the model, from the event to the \<^verbatim>\<open>finally\<close> block,
  with every promise it awaits settled as the event says. While the source is suspended at
  an \<^verbatim>\<open>await\<close>, the only code of the page that can run is another submission,
  which finds the busy flag set and returns at once, and the rest of
  \<^verbatim>\<open>generateNpcImage\<close>, which writes to the portrait region only.
\<close>

definition initial :: "state \<Rightarrow> bool" where
  "initial s =
     (isFirstMessage s \<and> chat s = None \<and> npcProfile s = JNull \<and> \<not> isGenerating s
      \<and> requests s = [] \<and> pendingImages s = 0 \<and> list_all (\<lambda>k. k < nextId s) (chatHistory s))"

datatype event =
    UserSubmits jsstring collaborators
  | ImageSettles "jsstring list settled"

fun step :: "(jsstring \<Rightarrow> parsed) \<Rightarrow> state \<Rightarrow> event \<Rightarrow> state" where
  "step JSON_parse s (UserSubmits v env) = handleChatSubmit JSON_parse env (s\<lparr>chatInput_value := v\<rparr>)"
| "step JSON_parse s (ImageSettles response) =
     (if pendingImages s = 0 then s else generateNpcImage_settle response s)"

inductive reachable :: "(jsstring \<Rightarrow> parsed) \<Rightarrow> state \<Rightarrow> bool" for JSON_parse where
  reachable_initial: "initial s \<Longrightarrow> reachable JSON_parse s"
| reachable_step: "reachable JSON_parse s \<Longrightarrow> reachable JSON_parse (step JSON_parse s e)"

text \<open>A page as the document may load it: an empty transcript, the placeholder shown in
  the portrait region.\<close>

definition emptyPage :: state where
  "emptyPage =
     \<lparr>isFirstMessage = True, chat = None, npcProfile = JNull, isGenerating = False,
      elems = Map.empty, nextId = 0, chatHistory = [],
      chatInput_value = [], chatInput_disabled = False,
      chatInput_placeholder = placeholderSaySomething, submitButton_disabled = False,
      portraitPlaceholder_hidden = False, portraitPlaceholder_caption = [],
      portraitLoader_hidden = True, npcImage_hidden = True, npcImage_src = [],
      signalContainer_innerHTML = [], requests = [], pendingImages = 0\<rparr>"

subsection \<open>Auxiliary notions for the proofs\<close>

text \<open>The children of a paragraph after the typing loop has inserted the characters
  \<open>cs\<close>, one text node each, in front of the cursor.\<close>

definition typeNodes :: "jsstring list \<Rightarrow> node list \<Rightarrow> node list" where
  "typeNodes cs ns = foldl (\<lambda>ns c. insertBefore (TextNode c) CursorSpan ns) ns cs"

text \<open>The element that \<^verbatim>\<open>addMessageToUI\<close> creates for a message that is not
  streamed, and the state after \<^verbatim>\<open>handleChatSubmit\<close> has echoed the trimmed input and
  cleared the input field.\<close>

definition plainMessage :: "sender \<Rightarrow> jsstring \<Rightarrow> element" where
  "plainMessage sndr txt =
     \<lparr>classList = [js ''message'', senderName sndr @ js ''-message''],
      p_childNodes = setTextContent txt\<rparr>"

definition echoed :: "state \<Rightarrow> state" where
  "echoed s =
     s\<lparr>elems := (elems s)(nextId s \<mapsto> plainMessage User (trim (chatInput_value s))),
       nextId := Suc (nextId s),
       chatHistory := chatHistory s @ [nextId s],
       chatInput_value := []\<rparr>"

text \<open>The number of chat sessions created so far.\<close>

fun isChatsCreate :: "request \<Rightarrow> bool" where
  "isChatsCreate (ChatsCreate _) = True"
| "isChatsCreate _ = False"

definition chatsCreated :: "request list \<Rightarrow> nat" where
  "chatsCreated rs = length (filter isChatsCreate rs)"

text \<open>The number of profile-generation requests made so far.\<close>

fun isGenerateContent :: "request \<Rightarrow> bool" where
  "isGenerateContent (GenerateContent _) = True"
| "isGenerateContent _ = False"

definition profileRequests :: "request list \<Rightarrow> nat" where
  "profileRequests rs = length (filter isGenerateContent rs)"

text \<open>The typing loop of the first message on the values \<open>cs\<close>: the texts it
  types, up to the first value that cannot be converted, and whether it gets through.\<close>

fun typedTexts :: "jsval list \<Rightarrow> jsstring list" where
  "typedTexts [] = []"
| "typedTexts (c # cs) = (case toString c of None \<Rightarrow> [] | Some t \<Rightarrow> t # typedTexts cs)"

definition completes :: "jsval list \<Rightarrow> bool" where
  "completes cs = list_all (\<lambda>c. toString c \<noteq> None) cs"

text \<open>The same for the property \<^verbatim>\<open>first_message\<close> as the profile has it: nothing
  is typed when it is not iterable.\<close>

definition typed :: "jsval option \<Rightarrow> jsstring list" where
  "typed first_message = (case iterate first_message of None \<Rightarrow> [] | Some cs \<Rightarrow> typedTexts cs)"

definition rendered :: "jsval option \<Rightarrow> bool" where
  "rendered first_message = (case iterate first_message of None \<Rightarrow> False | Some cs \<Rightarrow> completes cs)"

text \<open>The request that \<^verbatim>\<open>generateNpcImage\<close> makes for a prompt: none when the prompt
  cannot be converted to a string.\<close>

definition imageRequest :: "jsval option \<Rightarrow> request list" where
  "imageRequest prompt =
     (case toStr prompt of
        None \<Rightarrow> []
      | Some txt \<Rightarrow> [GenerateImages (txt @ enhancedPrompt_style)])"

text \<open>The value that the profile-generation step assigns to \<^verbatim>\<open>npcProfile\<close>: the
  request resolves and its text parses. \<open>None\<close>, and no assignment, when the request
  rejects or the text does not parse.\<close>

definition generatedProfile :: "(jsstring \<Rightarrow> parsed) \<Rightarrow> jsstring settled \<Rightarrow> jsval option" where
  "generatedProfile JSON_parse response =
     (case response of
        Rejects \<Rightarrow> None
      | Resolves t \<Rightarrow> (case JSON_parse t of SyntaxError \<Rightarrow> None | Parsed v \<Rightarrow> Some v))"

text \<open>The system instruction that \<^verbatim>\<open>generateNpcAndStartChat\<close> builds from the
  response: \<open>None\<close> when no value is generated or the template literal throws on it.\<close>

definition contactInstruction :: "(jsstring \<Rightarrow> parsed) \<Rightarrow> jsstring settled \<Rightarrow> jsstring option" where
  "contactInstruction JSON_parse response =
     (case generatedProfile JSON_parse response of
        None \<Rightarrow> None
      | Some v \<Rightarrow> systemInstruction v)"

subsection \<open>A sample session\<close>

text \<open>
  Concrete answers of the collaborators, to run the model on. Four profiles with the JSON
  text that denotes each: one with its six fields,
  \<^verbatim>\<open>{"name":"Lin","personality":"calm","backstory":"A gardener.","current_activity":"watering the fern","image_prompt":"a fern on a sill","first_message":"Oh, hi. Is it you?"}\<close>,
  one without a first message, \<^verbatim>\<open>{"name":"Lin"}\<close>, and one whose name cannot be
  converted to a string, \<^verbatim>\<open>{"name":{"toString":0},"first_message":"hi"}\<close>, and one
  whose image prompt cannot,
  \<^verbatim>\<open>{"name":"Lin","image_prompt":{"toString":0},"first_message":"hi"}\<close>.
  A stand-in for \<^verbatim>\<open>JSON.parse\<close> reads these four texts and refuses every other.
\<close>

definition sampleProfile :: jsval where
  "sampleProfile =
     JObject
       [(js ''name'', JString (js ''Lin'')),
        (js ''personality'', JString (js ''calm'')),
        (js ''backstory'', JString (js ''A gardener.'')),
        (js ''current_activity'', JString (js ''watering the fern'')),
        (js ''image_prompt'', JString (js ''a fern on a sill'')),
        (js ''first_message'', JString (js ''Oh, hi. Is it you?''))]"

definition sampleText :: jsstring where
  "sampleText =
     [123, 34, 110, 97, 109, 101, 34, 58, 34, 76, 105, 110, 34, 44, 34, 112, 101, 114, 115, 111,
      110, 97, 108, 105, 116, 121, 34, 58, 34, 99, 97, 108, 109, 34, 44, 34, 98, 97, 99, 107,
      115, 116, 111, 114, 121, 34, 58, 34, 65, 32, 103, 97, 114, 100, 101, 110, 101, 114, 46,
      34, 44, 34, 99, 117, 114, 114, 101, 110, 116, 95, 97, 99, 116, 105, 118, 105, 116, 121,
      34, 58, 34, 119, 97, 116, 101, 114, 105, 110, 103, 32, 116, 104, 101, 32, 102, 101, 114,
      110, 34, 44, 34, 105, 109, 97, 103, 101, 95, 112, 114, 111, 109, 112, 116, 34, 58, 34, 97,
      32, 102, 101, 114, 110, 32, 111, 110, 32, 97, 32, 115, 105, 108, 108, 34, 44, 34, 102,
      105, 114, 115, 116, 95, 109, 101, 115, 115, 97, 103, 101, 34, 58, 34, 79, 104, 44, 32,
      104, 105, 46, 32, 73, 115, 32, 105, 116, 32, 121, 111, 117, 63, 34, 125]"

definition silentProfile :: jsval where
  "silentProfile = JObject [(js ''name'', JString (js ''Lin''))]"

definition silentText :: jsstring where
  "silentText =
     [123, 34, 110, 97, 109, 101, 34, 58, 34, 76, 105, 110, 34, 125]"

definition unprintableProfile :: jsval where
  "unprintableProfile =
     JObject
       [(js ''name'', JObject [(js ''toString'', JNumber (js ''0''))]),
        (js ''first_message'', JString (js ''hi''))]"

definition unprintableText :: jsstring where
  "unprintableText =
     [123, 34, 110, 97, 109, 101, 34, 58, 123, 34, 116, 111, 83, 116, 114, 105, 110, 103, 34,
      58, 48, 125, 44, 34, 102, 105, 114, 115, 116, 95, 109, 101, 115, 115, 97, 103, 101, 34,
      58, 34, 104, 105, 34, 125]"

definition unpaintableProfile :: jsval where
  "unpaintableProfile =
     JObject
       [(js ''name'', JString (js ''Lin'')),
        (js ''image_prompt'', JObject [(js ''toString'', JNumber (js ''0''))]),
        (js ''first_message'', JString (js ''hi''))]"

definition unpaintableText :: jsstring where
  "unpaintableText =
     [123, 34, 110, 97, 109, 101, 34, 58, 34, 76, 105, 110, 34, 44, 34, 105, 109, 97, 103, 101,
      95, 112, 114, 111, 109, 112, 116, 34, 58, 123, 34, 116, 111, 83, 116, 114, 105, 110, 103,
      34, 58, 48, 125, 44, 34, 102, 105, 114, 115, 116, 95, 109, 101, 115, 115, 97, 103, 101,
      34, 58, 34, 104, 105, 34, 125]"

definition sampleParse :: "jsstring \<Rightarrow> parsed" where
  "sampleParse t =
     (if t = sampleText then Parsed sampleProfile
      else if t = silentText then Parsed silentProfile
      else if t = unprintableText then Parsed unprintableProfile
      else if t = unpaintableText then Parsed unpaintableProfile
      else SyntaxError)"

text \<open>The system instructions of the sample profile and of the two profiles without a
  personality.\<close>

definition sampleInstruction :: jsstring where
  "sampleInstruction =
     systemInstruction_text (js ''Lin'') (js ''calm'') (js ''A gardener.'') (js ''watering the fern'')"

definition silentInstruction :: jsstring where
  "silentInstruction =
     systemInstruction_text (js ''Lin'') (js ''undefined'') (js ''undefined'') (js ''undefined'')"

definition sampleAnswers :: collaborators where
  "sampleAnswers =
     \<lparr>generateContent_response = Resolves sampleText,
      sendMessageStream_response = Resolves ([js ''Ye'', js ''s, it is'', js ''.''], StreamDone)\<rparr>"

definition silentAnswers :: collaborators where
  "silentAnswers =
     \<lparr>generateContent_response = Resolves silentText, sendMessageStream_response = Rejects\<rparr>"

definition unprintableAnswers :: collaborators where
  "unprintableAnswers =
     \<lparr>generateContent_response = Resolves unprintableText, sendMessageStream_response = Rejects\<rparr>"

definition failingAnswers :: collaborators where
  "failingAnswers =
     \<lparr>generateContent_response = Rejects, sendMessageStream_response = Rejects\<rparr>"

text \<open>The empty page with \<open>v\<close> typed into the input field.\<close>

definition pageWith :: "jsstring \<Rightarrow> state" where
  "pageWith v = emptyPage\<lparr>chatInput_value := v\<rparr>"

text \<open>The sample session after its first submission.\<close>

definition inDialogue :: state where
  "inDialogue = step sampleParse emptyPage (UserSubmits (js ''  hello '') sampleAnswers)"

text \<open>Two other sessions after their first submission: the profile has no first message;
  the name of the profile cannot be converted. In the latter the user then tries again and
  gets the sample profile.\<close>

definition afterSilent :: state where
  "afterSilent = step sampleParse emptyPage (UserSubmits (js ''  hello '') silentAnswers)"

definition afterUnprintable :: state where
  "afterUnprintable = step sampleParse emptyPage (UserSubmits (js ''  hello '') unprintableAnswers)"

definition afterRetry :: state where
  "afterRetry = step sampleParse afterUnprintable (UserSubmits (js ''  hello '') sampleAnswers)"

section \<open>Properties of strings\<close>

lemma js_simps: "js [] = []" "js (c # cs) = of_char c # js cs"
  by (simp_all add: js_def)

lemma stringIterator_shape:
  "c \<in> set (stringIterator s) \<Longrightarrow>
     (\<exists>u. c = [u]) \<or> (\<exists>u v. c = [u, v] \<and> isLeadingSurrogate u \<and> isTrailingSurrogate v)"
  by (induction s rule: stringIterator.induct) (auto split: if_splits)

lemma concat_stringIterator: "concat (stringIterator s) = s"
  by (induction s rule: stringIterator.induct) auto

lemma includes_punct:
  assumes "c \<in> set (stringIterator s)"
  shows "includes_str (js ''.?!'') c \<longleftrightarrow> c = js ''.'' \<or> c = js ''?'' \<or> c = js ''!''"
  using stringIterator_shape [OF assms]
  by (auto simp: js_simps isLeadingSurrogate_def)

lemma trim_empty_iff: "trim v = [] \<longleftrightarrow> list_all isWhiteSpace v"
proof (cases "dropWhile isWhiteSpace v")
  case Nil
  have "trim v = []"
    by (simp add: trim_def Nil)
  moreover have "list_all isWhiteSpace v"
    using Nil by (simp add: list_all_iff)
  ultimately show ?thesis by simp
next
  case (Cons x xs)
  have x: "\<not> isWhiteSpace x"
    using hd_dropWhile [of isWhiteSpace v] Cons by auto
  have "x \<in> set v"
    using set_dropWhileD [of x isWhiteSpace v] Cons by simp
  with x have "\<not> list_all isWhiteSpace v"
    by (auto simp: list_all_iff)
  moreover have "trim v \<noteq> []"
    using x by (simp add: trim_def Cons)
  ultimately show ?thesis by simp
qed

lemma trim_hello: "trim (js ''  hello '') = js ''hello''"
  by (simp add: trim_def isWhiteSpace_def js_simps)

section \<open>Rounding\<close>

lemma rne_of_int: "rne (of_int n) = n"
  by (simp add: rne_def)

lemma rne_bounds: "\<lfloor>x\<rfloor> \<le> rne x" "rne x \<le> \<lfloor>x\<rfloor> + 1"
  by (simp_all add: rne_def Let_def)

lemma rne_mono:
  assumes "x \<le> y"
  shows "rne x \<le> rne y"
proof (cases "\<lfloor>x\<rfloor> = \<lfloor>y\<rfloor>")
  case True
  then show ?thesis
    using assms by (auto simp: rne_def Let_def)
next
  case False
  then have "\<lfloor>x\<rfloor> + 1 \<le> \<lfloor>y\<rfloor>"
    using floor_mono [OF assms] by linarith
  then show ?thesis
    using rne_bounds(2) [of x] rne_bounds(1) [of y] by linarith
qed

lemma binade_iff:
  assumes "x \<noteq> 0"
  shows "binade x = e \<longleftrightarrow> 2 powi e \<le> \<bar>x\<bar> \<and> \<bar>x\<bar> < 2 powi (e + 1)"
proof -
  have "2 powr real_of_int e = (2::real) powi e" "2 powr real_of_int (e + 1) = (2::real) powi (e + 1)"
    using powr_real_of_int' [of "2::real" e] powr_real_of_int' [of "2::real" "e + 1"] by simp_all
  then show ?thesis
    using floor_log_eq_powr_iff [of "\<bar>x\<bar>" 2 e] assms
    unfolding binade_def by simp
qed

lemma binade_eq:
  assumes "2 powi e \<le> \<bar>x\<bar>" and "\<bar>x\<bar> < 2 powi (e + 1)"
  shows "binade x = e"
proof -
  have "(0::real) < 2 powi e" by simp
  with assms(1) have "0 < \<bar>x\<bar>" by linarith
  then have "x \<noteq> 0" by simp
  then show ?thesis using binade_iff assms by blast
qed

lemma binade_bounds:
  assumes "x \<noteq> 0"
  shows "2 powi (binade x) \<le> \<bar>x\<bar>" "\<bar>x\<bar> < 2 powi (binade x + 1)"
  using binade_iff [OF assms, of "binade x"] by simp_all

lemma binade_mono:
  assumes "0 < x" and "x \<le> y"
  shows "binade x \<le> binade y"
  using assms by (simp add: binade_def floor_mono)

lemma ulp_scale:
  "2 powi (e - 52) * 2 powi 52 = (2::real) powi e"
  "2 powi (e - 52) * 2 powi 53 = (2::real) powi (e + 1)"
  by (simp_all add: power_int_add [symmetric] add.commute del: power_int_numeral)

text \<open>A positive number rounds within its binade.\<close>

lemma roundPositive_binade:
  assumes "0 < x"
  shows "2 powi binade x \<le> roundPositive x" "roundPositive x \<le> 2 powi (binade x + 1)"
proof -
  let ?u = "(2::real) powi (binade x - 52)"
  have u: "0 < ?u" by simp
  have b: "2 powi binade x \<le> x" "x < 2 powi (binade x + 1)"
    using binade_bounds [of x] assms by simp_all
  have "of_int (2 ^ 52) \<le> x / ?u"
    using b(1) u ulp_scale(1) [of "binade x"] by (simp add: field_simps)
  then have lo: "2 ^ 52 \<le> rne (x / ?u)"
    using rne_mono [of "of_int (2 ^ 52)" "x / ?u"] by (simp only: rne_of_int)
  have "x / ?u \<le> of_int (2 ^ 53)"
    using b(2) u ulp_scale(2) [of "binade x"] by (simp add: field_simps)
  then have hi: "rne (x / ?u) \<le> 2 ^ 53"
    using rne_mono [of "x / ?u" "of_int (2 ^ 53)"] by (simp only: rne_of_int)
  have "2 powi binade x = of_int (2 ^ 52) * ?u"
    using ulp_scale(1) [of "binade x"] by (simp add: mult.commute)
  also have "\<dots> \<le> of_int (rne (x / ?u)) * ?u"
    using lo u by (intro mult_right_mono) simp_all
  finally show "2 powi binade x \<le> roundPositive x"
    by (simp add: roundPositive_def)
  have "of_int (rne (x / ?u)) * ?u \<le> of_int (2 ^ 53) * ?u"
    using hi u by (intro mult_right_mono) simp_all
  also have "\<dots> = 2 powi (binade x + 1)"
    using ulp_scale(2) [of "binade x"] by (simp add: mult.commute)
  finally show "roundPositive x \<le> 2 powi (binade x + 1)"
    by (simp add: roundPositive_def)
qed

lemma roundPositive_mono:
  assumes "0 < x" and "x \<le> y"
  shows "roundPositive x \<le> roundPositive y"
proof (cases "binade x = binade y")
  case True
  have "x / 2 powi (binade y - 52) \<le> y / 2 powi (binade y - 52)"
    using assms(2) by (simp add: divide_right_mono)
  then have "rne (x / 2 powi (binade y - 52)) \<le> rne (y / 2 powi (binade y - 52))"
    by (rule rne_mono)
  then show ?thesis
    by (simp add: roundPositive_def True mult_right_mono)
next
  case False
  then have "binade x + 1 \<le> binade y"
    using binade_mono [OF assms] by simp
  then have "(2::real) powi (binade x + 1) \<le> 2 powi binade y"
    by (intro power_int_increasing) simp_all
  then show ?thesis
    using roundPositive_binade(2) [OF assms(1)] roundPositive_binade(1) [of y] assms
    by linarith
qed

lemma binary64_nonneg: "0 \<le> x \<Longrightarrow> 0 \<le> binary64 x"
  using roundPositive_binade(1) [of x] zero_less_power_int [of "2::real" "binade x"]
  by (auto simp: binary64_def simp del: zero_less_power_int intro: order_trans less_imp_le)

lemma binary64_minus: "binary64 (- x) = - binary64 x"
  by (simp add: binary64_def)

lemma binary64_mono:
  assumes "x \<le> y"
  shows "binary64 x \<le> binary64 y"
proof -
  consider (pos) "0 < x" | (neg) "y < 0" | (mixed) "x \<le> 0" "0 \<le> y"
    by linarith
  then show ?thesis
  proof cases
    case pos
    then show ?thesis
      using assms roundPositive_mono [of x y] by (simp add: binary64_def)
  next
    case neg
    then show ?thesis
      using assms roundPositive_mono [of "- y" "- x"] by (simp add: binary64_def)
  next
    case mixed
    have "binary64 x \<le> 0"
      using binary64_nonneg [of "- x"] mixed(1) by (simp add: binary64_minus)
    then show ?thesis
      using binary64_nonneg [OF mixed(2)] by linarith
  qed
qed

lemma rne_down: "of_int n \<le> x \<Longrightarrow> x < of_int n + 1/2 \<Longrightarrow> rne x = n"
proof -
  assume a: "of_int n \<le> x" "x < of_int n + 1/2"
  then have "\<lfloor>x\<rfloor> = n" by linarith
  then show ?thesis using a by (simp add: rne_def)
qed

lemma rne_up: "of_int n + 1/2 < x \<Longrightarrow> x < of_int n + 1 \<Longrightarrow> rne x = n + 1"
proof -
  assume a: "of_int n + 1/2 < x" "x < of_int n + 1"
  then have "\<lfloor>x\<rfloor> = n" by linarith
  then show ?thesis using a by (simp add: rne_def)
qed

lemma rne_tie: "x = of_int n + 1/2 \<Longrightarrow> rne x = (if even n then n else n + 1)"
proof -
  assume a: "x = of_int n + 1/2"
  then have "\<lfloor>x\<rfloor> = n" by linarith
  then show ?thesis using a by (simp add: rne_def)
qed

text \<open>Every number \<open>m * 2 ^ k\<close> with \<open>m\<close> below \<open>2 ^ 53\<close> is a double: rounding leaves it
  as it is.\<close>

lemma roundPositive_exact:
  assumes "0 < m" and "m < 2 ^ 53"
  shows "roundPositive (of_int m * 2 powi k) = of_int m * 2 powi k"
proof -
  let ?x = "of_int m * (2::real) powi k"
  have pos: "0 < ?x" using assms(1) by simp
  define e where "e = binade ?x"
  have "\<bar>?x\<bar> = ?x" "?x \<noteq> 0"
    using pos by linarith+
  then have "2 powi e \<le> ?x"
    using binade_bounds(1) [of ?x] unfolding e_def by metis
  also have "?x < 2 ^ 53 * 2 powi k"
  proof -
    have "real_of_int m < real_of_int (2 ^ 53)"
      using assms(2) by (simp only: of_int_less_iff)
    then show ?thesis by simp
  qed
  also have "\<dots> = 2 powi (53 + k)"
    by (simp add: power_int_add)
  finally have "(2::real) powi e < 2 powi (53 + k)" .
  then have "e < 53 + k"
    using power_int_increasing [of "53 + k" e "2::real"] by linarith
  define j where "j = nat (k - (e - 52))"
  have j: "int j = k - (e - 52)"
    using \<open>e < 53 + k\<close> by (simp add: j_def)
  have "?x / 2 powi (e - 52) = of_int m * 2 powi (k - (e - 52))"
    by (simp add: power_int_diff)
  also have "\<dots> = of_int m * 2 powi int j"
    by (simp only: j)
  also have "\<dots> = of_int (m * 2 ^ j)"
    by (simp add: power_int_of_nat)
  finally have q: "?x / 2 powi (e - 52) = of_int (m * 2 ^ j)" .
  have "roundPositive ?x = of_int (m * 2 ^ j) * 2 powi (e - 52)"
    unfolding roundPositive_def e_def [symmetric] q rne_of_int ..
  also have "\<dots> = ?x / 2 powi (e - 52) * 2 powi (e - 52)"
    by (simp only: q)
  also have "\<dots> = ?x"
    by simp
  finally show ?thesis .
qed

lemma binary64_exact:
  assumes "\<bar>m\<bar> < 2 ^ 53"
  shows "binary64 (of_int m * 2 powi k) = of_int m * 2 powi k"
proof -
  have p: "\<not> (2::real) powi k < 0"
    by (simp add: not_less)
  consider "m = 0" | "0 < m" | "m < 0" by linarith
  then show ?thesis
  proof cases
    case 1
    then show ?thesis by (simp add: binary64_def)
  next
    case 2
    then have "0 < real_of_int m * 2 powi k" "m < 2 ^ 53"
      using assms by simp_all
    then show ?thesis
      using roundPositive_exact [of m k] 2 p by (simp add: binary64_def mult_less_0_iff)
  next
    case 3
    then have "0 < - m" "- m < 2 ^ 53" using assms by linarith+
    moreover have "real_of_int m * 2 powi k < 0"
      using 3 by (simp add: mult_neg_pos)
    ultimately show ?thesis
      using roundPositive_exact [of "- m" k] p by (simp add: binary64_def mult_less_0_iff)
  qed
qed

lemma binary64_int:
  assumes "\<bar>m\<bar> < 2 ^ 53"
  shows "binary64 (of_int m) = of_int m"
  using binary64_exact [OF assms, of 0] by simp

text \<open>The largest double below 1.\<close>

lemma double_below_one:
  assumes "binary64 r = r" and "r < 1"
  shows "r \<le> 1 - 1 / 2 ^ 53"
proof (cases "r \<le> 1 / 2")
  case True
  then show ?thesis by simp
next
  case False
  then have r: "1 / 2 < r" by simp
  have "binade r = - 1"
    using r assms(2) by (intro binade_eq) (simp_all add: power_int_minus)
  then have "r = of_int (rne (r / 2 powi (- 53))) * 2 powi (- 53)"
    using assms(1) r by (simp add: binary64_def roundPositive_def)
  then obtain n :: int where n: "r = of_int n / 2 ^ 53"
    by (auto simp: power_int_minus field_simps)
  with assms(2) have "real_of_int n < real_of_int (2 ^ 53)"
    by (simp add: field_simps)
  then have "n < 2 ^ 53" by (simp only: of_int_less_iff)
  then have "n \<le> 2 ^ 53 - 1" by simp
  then have "real_of_int n \<le> real_of_int (2 ^ 53 - 1)" by (simp only: of_int_le_iff)
  then have "real_of_int n \<le> 2 ^ 53 - 1" by simp
  then show ?thesis
    unfolding n by (simp add: field_simps)
qed

lemma roundPositive_eval:
  assumes "2 powi e \<le> x" and "x < 2 powi (e + 1)" and "rne (x / 2 powi (e - 52)) = n"
  shows "roundPositive x = of_int n * 2 powi (e - 52)"
proof -
  have "(0::real) < 2 powi e" by simp
  with assms(1) have "\<bar>x\<bar> = x" by linarith
  with assms(1,2) have "binade x = e" by (intro binade_eq) simp_all
  with assms(3) show ?thesis by (simp add: roundPositive_def)
qed

lemma binary64_eval:
  assumes "2 powi e \<le> x" and "x < 2 powi (e + 1)" and "rne (x / 2 powi (e - 52)) = n"
  shows "binary64 x = of_int n * 2 powi (e - 52)"
proof -
  have "(0::real) < 2 powi e" by simp
  with assms(1) have "0 < x" by linarith
  then show ?thesis
    using roundPositive_eval [OF assms] by (simp add: binary64_def)
qed

lemma comma_product: "binary64 ((1 - 1 / 2 ^ 53) * 150) = 150 - 1 / 2 ^ 45"
proof -
  have "rne ((1 - 1 / 2 ^ 53) * 150 / 2 powi (7 - 52)) = 150 * 2 ^ 45 - 1"
    by (rule rne_down) (simp_all add: power_int_minus field_simps)
  from binary64_eval [OF _ _ this] show ?thesis
    by (simp add: power_int_minus field_simps)
qed

lemma comma_sum: "binary64 (350 + (150 - 1 / 2 ^ 45)) = 500"
proof -
  have "rne ((350 + (150 - 1 / 2 ^ 45)) / 2 powi (8 - 52)) = 500 * 2 ^ 44"
    using rne_tie [of "(350 + (150 - 1 / 2 ^ 45)) / 2 powi (8 - 52)" "500 * 2 ^ 44 - 1"]
    by (simp add: power_int_minus field_simps)
  from binary64_eval [OF _ _ this] show ?thesis
    by (simp add: power_int_minus field_simps)
qed

lemma stop_product: "binary64 ((1 - 1 / 2 ^ 53) * 200) = 200 - 1 / 2 ^ 45"
proof -
  have "rne ((1 - 1 / 2 ^ 53) * 200 / 2 powi (7 - 52)) = 200 * 2 ^ 45 - 1"
    by (rule rne_down) (simp_all add: power_int_minus field_simps)
  from binary64_eval [OF _ _ this] show ?thesis
    by (simp add: power_int_minus field_simps)
qed

lemma stop_sum: "binary64 (500 + (200 - 1 / 2 ^ 45)) = 700"
proof -
  have "rne ((500 + (200 - 1 / 2 ^ 45)) / 2 powi (9 - 52)) = (700 * 2 ^ 43 - 1) + 1"
    by (rule rne_up) (simp_all add: power_int_minus field_simps)
  from binary64_eval [OF _ _ this] show ?thesis
    by (simp add: power_int_minus field_simps)
qed

lemma jitter_top: "binary64 ((1 / 2 - 1 / 2 ^ 53) * 60) = 30 - 1 / 2 ^ 47"
proof -
  have "rne ((1 / 2 - 1 / 2 ^ 53) * 60 / 2 powi (4 - 52)) = 30 * 2 ^ 48 - 2"
    by (rule rne_down) (simp_all add: power_int_minus field_simps)
  from binary64_eval [OF _ _ this] show ?thesis
    by (simp add: power_int_minus field_simps)
qed

section \<open>The delay model\<close>

lemma binary64_numeral: "binary64 0 = 0" "binary64 50 = 50" "binary64 65 = 65" "binary64 95 = 95"
  "binary64 125 = 125" "binary64 150 = 150" "binary64 200 = 200" "binary64 300 = 300"
  "binary64 350 = 350" "binary64 500 = 500" "binary64 600 = 600" "binary64 700 = 700"
  "binary64 30 = 30" "binary64 (- 30) = - 30"
  using binary64_int [of 50] binary64_int [of 65] binary64_int [of 95] binary64_int [of 125]
    binary64_int [of 150] binary64_int [of 200] binary64_int [of 300] binary64_int [of 350]
    binary64_int [of 500] binary64_int [of 600] binary64_int [of 700] binary64_int [of 30]
    binary64_int [of "- 30"]
  by (simp_all add: binary64_def)

lemma binary64_half: "binary64 (1 / 2) = 1 / 2" "binary64 (- (1 / 2)) = - (1 / 2)"
  using binary64_exact [of 1 "- 1"] binary64_exact [of "- 1" "- 1"]
  by (simp_all add: power_int_minus)

lemma binary64_between:
  assumes "a \<le> x" and "x \<le> b" and "binary64 a = a" and "binary64 b = b"
  shows "a \<le> binary64 x" "binary64 x \<le> b"
  using binary64_mono [OF assms(1)] binary64_mono [OF assms(2)] assms(3,4) by simp_all

text \<open>
  C6. For every input of length \<open>L\<close> and every random number in \<open>[0, 1)\<close>, the thinking
  delay is the minimum of 4000 and \<open>600 + 40 * L + random * 500\<close>, each operation rounded
  to a double, and lies in \<open>[600, 4000]\<close> milliseconds (so it is non-negative and bounded).
\<close>

theorem getThinkingTime_range:
  assumes "0 \<le> random1" and "random1 < 1" and "length userInput = L"
  shows "getThinkingTime userInput random1
           = min 4000 (binary64 (binary64 (600 + binary64 (real L * 40)) + binary64 (random1 * 500)))
       \<and> 600 \<le> getThinkingTime userInput random1
       \<and> getThinkingTime userInput random1 \<le> 4000"
proof -
  have "0 \<le> binary64 (real L * 40)"
    by (rule binary64_nonneg) simp
  then have "600 \<le> binary64 (600 + binary64 (real L * 40))"
    using binary64_mono [of 600 "600 + binary64 (real L * 40)"] by (simp add: binary64_numeral)
  moreover have "0 \<le> binary64 (random1 * 500)"
    using assms(1) by (intro binary64_nonneg) simp
  ultimately have "600 \<le> binary64 (binary64 (600 + binary64 (real L * 40)) + binary64 (random1 * 500))"
    using binary64_mono [of 600 "binary64 (600 + binary64 (real L * 40)) + binary64 (random1 * 500)"]
    by (simp add: binary64_numeral)
  then show ?thesis
    using assms(3) by (simp add: getThinkingTime_def Let_def min_def)
qed

theorem getThinkingTime_range_witness:
  "length (js ''hello'') = 5
   \<and> getThinkingTime (js ''hello'') (1/2) = 1050
   \<and> 600 \<le> getThinkingTime (js ''hello'') (1/2)
   \<and> getThinkingTime (js ''hello'') (1/2) \<le> 4000"
proof -
  have "binary64 200 = 200" "binary64 250 = 250" "binary64 800 = 800" "binary64 1050 = 1050"
    using binary64_int [of 200] binary64_int [of 250] binary64_int [of 800] binary64_int [of 1050]
    by simp_all
  then have "getThinkingTime (js ''hello'') (1/2) = 1050"
    by (simp add: getThinkingTime_def js_simps)
  then show ?thesis
    using getThinkingTime_range [of "1/2" "js ''hello''" 5] by (simp add: js_simps)
qed

lemma jitter_range:
  assumes "0 \<le> r" and "r < 1" and "binary64 r = r"
  shows "- 30 \<le> binary64 (binary64 (r - 0.5) * 60)" "binary64 (binary64 (r - 0.5) * 60) < 30"
proof -
  have top: "binary64 (1 / 2 - 1 / 2 ^ 53) = 1 / 2 - 1 / 2 ^ 53"
    using binary64_exact [of "2 ^ 52 - 1" "- 53"] by (simp add: power_int_minus field_simps)
  have "r \<le> 1 - 1 / 2 ^ 53"
    using double_below_one [OF assms(3,2)] .
  then have "- (1 / 2) \<le> r - 0.5" "r - 0.5 \<le> 1 / 2 - 1 / 2 ^ 53"
    using assms(1) by simp_all
  from binary64_between [OF this binary64_half(2) top]
  have "- 30 \<le> binary64 (r - 0.5) * 60" "binary64 (r - 0.5) * 60 \<le> (1 / 2 - 1 / 2 ^ 53) * 60"
    by simp_all
  note b = this
  show "- 30 \<le> binary64 (binary64 (r - 0.5) * 60)"
    using binary64_mono [OF b(1)] by (simp add: binary64_numeral)
  have "binary64 (binary64 (r - 0.5) * 60) \<le> 30 - 1 / 2 ^ 47"
    using binary64_mono [OF b(2)] unfolding jitter_top .
  then show "binary64 (binary64 (r - 0.5) * 60) < 30"
    by simp
qed

text \<open>
  C7. For every character that a typing loop passes (an element of the string iterator)
  and all doubles in \<open>[0, 1)\<close> as random numbers, the typing delay is at least 50 ms; it
  lies in \<open>[350, 500]\<close> for a comma and in \<open>[500, 700]\<close> for a full stop, question mark
  or exclamation mark; for every other character it is \<open>max 50 (95 + jitter)\<close> with the
  jitter in \<open>[-30, 30)\<close>, plus 300 ms when the second random number is below 0.04, each
  operation rounded to a double.
\<close>

theorem getTypingDelay_tiers:
  assumes "0 \<le> random1" and "random1 < 1" and "binary64 random1 = random1"
    and "char \<in> set (stringIterator s)"
  shows "50 \<le> getTypingDelay char random1 random2
       \<and> (char = js '','' \<longrightarrow>
            350 \<le> getTypingDelay char random1 random2 \<and> getTypingDelay char random1 random2 \<le> 500)
       \<and> (char = js ''.'' \<or> char = js ''?'' \<or> char = js ''!'' \<longrightarrow>
            500 \<le> getTypingDelay char random1 random2 \<and> getTypingDelay char random1 random2 \<le> 700)
       \<and> (char \<noteq> js '','' \<and> char \<noteq> js ''.'' \<and> char \<noteq> js ''?'' \<and> char \<noteq> js ''!'' \<longrightarrow>
            getTypingDelay char random1 random2
              = (if random2 < binary64 0.04
                 then binary64 (max 50 (binary64 (95 + binary64 (binary64 (random1 - 0.5) * 60))) + 300)
                 else max 50 (binary64 (95 + binary64 (binary64 (random1 - 0.5) * 60))))
            \<and> - 30 \<le> binary64 (binary64 (random1 - 0.5) * 60)
            \<and> binary64 (binary64 (random1 - 0.5) * 60) < 30)"
proof -
  let ?J = "binary64 (binary64 (random1 - 0.5) * 60)"
  have "0 \<le> random1 * 150" "random1 * 150 \<le> 150" "0 \<le> random1 * 200" "random1 * 200 \<le> 200"
    using assms(1,2) by simp_all
  then have p: "0 \<le> binary64 (random1 * 150)" "binary64 (random1 * 150) \<le> 150"
    "0 \<le> binary64 (random1 * 200)" "binary64 (random1 * 200) \<le> 200"
    using binary64_between [of 0 "random1 * 150" 150] binary64_between [of 0 "random1 * 200" 200]
    by (simp_all add: binary64_numeral)
  have comma: "350 \<le> binary64 (350 + binary64 (random1 * 150))"
    "binary64 (350 + binary64 (random1 * 150)) \<le> 500"
    using binary64_between [of 350 "350 + binary64 (random1 * 150)" 500] p
    by (simp_all add: binary64_numeral)
  have stop: "500 \<le> binary64 (500 + binary64 (random1 * 200))"
    "binary64 (500 + binary64 (random1 * 200)) \<le> 700"
    using binary64_between [of 500 "500 + binary64 (random1 * 200)" 700] p
    by (simp_all add: binary64_numeral)
  note J = jitter_range [OF assms(1-3)]
  have base: "65 \<le> binary64 (95 + ?J)"
    using binary64_mono [of 65 "95 + ?J"] J(1) by (simp add: binary64_numeral)
  then have "365 \<le> binary64 (95 + ?J) + 300"
    by simp
  from binary64_mono [OF this] have slow: "365 \<le> binary64 (binary64 (95 + ?J) + 300)"
    using binary64_int [of 365] by simp
  have m: "max 50 (binary64 (95 + ?J)) = binary64 (95 + ?J)"
    using base by simp
  note inc = includes_punct [OF assms(4)]
  show ?thesis
    unfolding getTypingDelay_def Let_def inc m
    using comma stop J base slow
    by (auto simp: js_simps)
qed

theorem getTypingDelay_tiers_witness:
  "binary64 (1 / 2) = 1 / 2
   \<and> js ''?'' \<in> set (stringIterator (js ''a,b?''))
   \<and> 500 \<le> getTypingDelay (js ''?'') (1 / 2) (1 / 100)
   \<and> getTypingDelay (js ''?'') (1 / 2) (1 / 100) \<le> 700"
  using getTypingDelay_tiers [of "1 / 2" "js ''?''" "js ''a,b?''" "1 / 100"] binary64_half(1)
  by (simp add: js_simps isLeadingSurrogate_def)

text \<open>At the largest doubles below 1, the delay for a comma is 500 and the delay for a full
  stop is 700: the upper bounds are attained.\<close>

theorem getTypingDelay_upper_bound_counterexample:
  "(0::real) \<le> 1 - 1 / 2 ^ 53 \<and> (1 - 1 / 2 ^ 53 :: real) < 1
   \<and> binary64 (1 - 1 / 2 ^ 53) = 1 - 1 / 2 ^ 53
   \<and> js '','' \<in> set (stringIterator (js '',''))
   \<and> \<not> getTypingDelay (js '','') (1 - 1 / 2 ^ 53) 0 < 500
   \<and> \<not> getTypingDelay (js ''.'') (1 - 1 / 2 ^ 53) 0 < 700"
proof -
  have "binary64 (1 - 1 / 2 ^ 53) = 1 - 1 / 2 ^ 53"
    using binary64_exact [of "2 ^ 53 - 1" "- 53"] by (simp add: power_int_minus field_simps)
  moreover have "getTypingDelay (js '','') r 0 = binary64 (350 + binary64 (r * 150))" for r
    by (simp add: getTypingDelay_def)
  then have "getTypingDelay (js '','') (1 - 1 / 2 ^ 53) 0 = 500"
    by (simp only: comma_product comma_sum)
  moreover have "getTypingDelay (js ''.'') r 0 = binary64 (500 + binary64 (r * 200))" for r
    by (simp add: getTypingDelay_def js_simps)
  then have "getTypingDelay (js ''.'') (1 - 1 / 2 ^ 53) 0 = 700"
    by (simp only: stop_product stop_sum)
  ultimately show ?thesis
    by (simp add: js_simps)
qed

section \<open>The typing loops\<close>

lemma insertBefore_cursor:
  "CursorSpan \<notin> set pre \<Longrightarrow>
     insertBefore n CursorSpan (pre @ CursorSpan # post) = pre @ n # CursorSpan # post"
  by (induction pre) auto

lemma typeNodes_cursor:
  "typeNodes cs (map TextNode pre @ [CursorSpan]) = map TextNode (pre @ cs) @ [CursorSpan]"
proof (induction cs arbitrary: pre)
  case Nil
  then show ?case by (simp add: typeNodes_def)
next
  case (Cons c cs)
  have "insertBefore (TextNode c) CursorSpan (map TextNode pre @ [CursorSpan])
          = map TextNode (pre @ [c]) @ [CursorSpan]"
    using insertBefore_cursor [of "map TextNode pre" "TextNode c" "[]"] by auto
  with Cons.IH [of "pre @ [c]"] show ?case by (simp add: typeNodes_def)
qed

lemma typeNodes_fresh: "typeNodes cs [CursorSpan] = map TextNode cs @ [CursorSpan]"
  using typeNodes_cursor [of cs "[]"] by simp

lemma typeNodes_append: "typeNodes (cs @ ds) ns = typeNodes ds (typeNodes cs ns)"
  by (simp add: typeNodes_def)

lemma remove1_cursor: "remove1 CursorSpan (map TextNode cs @ [CursorSpan]) = map TextNode cs"
  by (induction cs) auto

lemma updateElement_twice:
  "updateElement k f (updateElement k g s) = updateElement k (f \<circ> g) s"
  by (simp add: updateElement_def option.map_comp)

lemma typeText_updateElement:
  "typeText k t s =
     updateElement k (\<lambda>e. e\<lparr>p_childNodes := typeNodes (stringIterator t) (p_childNodes e)\<rparr>) s"
proof -
  have "foldl (\<lambda>s char. typeChar k char s) s cs =
          updateElement k (\<lambda>e. e\<lparr>p_childNodes := typeNodes cs (p_childNodes e)\<rparr>) s" for cs
  proof (induction cs arbitrary: s)
    case Nil
    show ?case by (simp add: typeNodes_def updateElement_def option.map_ident)
  next
    case (Cons c cs)
    have "foldl (\<lambda>s char. typeChar k char s) s (c # cs) =
            updateElement k (\<lambda>e. e\<lparr>p_childNodes := typeNodes cs (p_childNodes e)\<rparr>) (typeChar k c s)"
      using Cons.IH [of "typeChar k c s"] by simp
    also have "\<dots> = updateElement k (\<lambda>e. e\<lparr>p_childNodes := typeNodes (c # cs) (p_childNodes e)\<rparr>) s"
      by (simp add: typeChar_def updateElement_twice typeNodes_def comp_def)
    finally show ?case .
  qed
  then show ?thesis by (simp add: typeText_def)
qed

lemma typeChunks_updateElement:
  "typeChunks k chunks s =
     updateElement k
       (\<lambda>e. e\<lparr>p_childNodes := typeNodes (concat (map stringIterator chunks)) (p_childNodes e)\<rparr>) s"
proof -
  have "foldl (\<lambda>s textChunk. typeText k textChunk s) s chunks =
          updateElement k
            (\<lambda>e. e\<lparr>p_childNodes := typeNodes (concat (map stringIterator chunks)) (p_childNodes e)\<rparr>) s"
  proof (induction chunks arbitrary: s)
    case Nil
    show ?case by (simp add: typeNodes_def updateElement_def option.map_ident)
  next
    case (Cons c cs)
    have "foldl (\<lambda>s textChunk. typeText k textChunk s) s (c # cs) =
            updateElement k
              (\<lambda>e. e\<lparr>p_childNodes := typeNodes (concat (map stringIterator cs)) (p_childNodes e)\<rparr>)
              (typeText k c s)"
      using Cons.IH [of "typeText k c s"] by simp
    also have "\<dots> = updateElement k
              (\<lambda>e. e\<lparr>p_childNodes := typeNodes (concat (map stringIterator (c # cs))) (p_childNodes e)\<rparr>) s"
      by (simp add: typeText_updateElement updateElement_twice typeNodes_append comp_def)
    finally show ?case .
  qed
  then show ?thesis by (simp add: typeChunks_def)
qed

lemma textContent_TextNodes: "textContent (map TextNode cs) = concat cs"
  by (simp add: textContent_def comp_def)

lemma concat_chunks: "concat (concat (map stringIterator chunks)) = concat chunks"
  by (induction chunks) (simp_all add: concat_stringIterator)

lemma typeValues_updateElement:
  "typeValues k cs s =
     (if completes cs then Normal else Thrown,
      updateElement k (\<lambda>e. e\<lparr>p_childNodes := typeNodes (typedTexts cs) (p_childNodes e)\<rparr>) s)"
proof (induction cs arbitrary: s)
  case Nil
  show ?case by (simp add: completes_def typeNodes_def updateElement_def option.map_ident)
next
  case (Cons c cs)
  show ?case
  proof (cases "toString c")
    case None
    then show ?thesis
      by (simp add: completes_def typeNodes_def updateElement_def option.map_ident)
  next
    case (Some t)
    have "typeValues k (c # cs) s = typeValues k cs (typeChar k t s)"
      using Some by simp
    also have "\<dots> = (if completes cs then Normal else Thrown,
        updateElement k (\<lambda>e. e\<lparr>p_childNodes := typeNodes (typedTexts cs) (p_childNodes e)\<rparr>)
          (typeChar k t s))"
      by (rule Cons.IH)
    also have "\<dots> = (if completes (c # cs) then Normal else Thrown,
        updateElement k (\<lambda>e. e\<lparr>p_childNodes := typeNodes (typedTexts (c # cs)) (p_childNodes e)\<rparr>) s)"
      using Some by (simp add: typeChar_def updateElement_twice typeNodes_def comp_def completes_def)
    finally show ?thesis .
  qed
qed

lemma typedTexts_strings: "typedTexts (map JString cs) = cs" "completes (map JString cs)"
  by (induction cs) (simp_all add: completes_def)

lemma rendered_string:
  "rendered (Some (JString m))" "typed (Some (JString m)) = stringIterator m"
  by (simp_all add: rendered_def typed_def typedTexts_strings)

section \<open>Symbolic execution of the handlers\<close>

text \<open>The state each handler leaves, case by case of what the collaborators answer.\<close>

lemma setTextContent_empty: "setTextContent [] = []"
  by (simp add: setTextContent_def)

lemmas ui_defs = addMessageToUI_def setLoading_def removeChild_def updateElement_def
  classList_add_def classList_remove_def plainMessage_def

lemma generateNpcImage_start_eq:
  "generateNpcImage_start prompt s =
     s\<lparr>portraitPlaceholder_hidden := (toStr prompt \<noteq> None),
       portraitPlaceholder_caption :=
         (if toStr prompt = None then imageFailedCaption else portraitPlaceholder_caption s),
       portraitLoader_hidden := (toStr prompt = None),
       npcImage_hidden := True,
       requests := requests s @ imageRequest prompt,
       pendingImages := pendingImages s + length (imageRequest prompt)\<rparr>"
  by (cases s; cases "toStr prompt")
     (simp_all add: generateNpcImage_start_def generateNpcImage_catch_def
        generateNpcImage_finally_def imageRequest_def)

lemma systemInstruction_null: "systemInstruction JNull = None"
  by (simp add: systemInstruction_def)

lemmas flow_defs = generateNpcAndStartChat_def
  generateNpcAndStartChat_try_def generateNpcAndStartChat_catch_def chatTurn_try_def
  generateNpcImage_start_eq finishStreaming_def typeText_updateElement
  typeChunks_updateElement typeValues_updateElement ui_defs Let_def setTextContent_empty

lemma handleChatSubmit_ignored:
  "isGenerating s \<or> trim (chatInput_value s) = [] \<Longrightarrow> handleChatSubmit JSON_parse env s = s"
  by (auto simp: handleChatSubmit_def)

lemma handleChatSubmit_first:
  assumes "\<not> isGenerating s" and "trim (chatInput_value s) \<noteq> []" and "isFirstMessage s"
  shows "handleChatSubmit JSON_parse env s =
     generateNpcAndStartChat JSON_parse (generateContent_response env) (trim (chatInput_value s))
       ((echoed s)\<lparr>signalContainer_innerHTML := signalVines\<rparr>)"
  using assms by (simp add: handleChatSubmit_def echoed_def ui_defs js_simps Let_def)


lemma contact_rejected:
  assumes "response = Rejects \<or> (\<exists>t. response = Resolves t \<and> JSON_parse t = SyntaxError)"
  shows "generateNpcAndStartChat JSON_parse response initialPrompt s =
     s\<lparr>isGenerating := False,
       elems := (elems s)
         (nextId s \<mapsto> plainMessage Npc statusText,
          Suc (nextId s) \<mapsto> plainMessage Npc contactFailedText),
       nextId := Suc (Suc (nextId s)),
       chatHistory := removeAll (nextId s) (chatHistory s) @ [Suc (nextId s)],
       chatInput_disabled := False,
       chatInput_placeholder := (if isFirstMessage s then placeholderSaySomething else placeholderContinue),
       submitButton_disabled := False,
       signalContainer_innerHTML := [],
       requests := requests s @ [GenerateContent (npcGenerationPrompt initialPrompt)]\<rparr>"
  using assms
  by (cases s) (auto simp: flow_defs js_simps)

lemma contact_null:
  assumes "response = Resolves t" and "JSON_parse t = Parsed JNull"
  shows "generateNpcAndStartChat JSON_parse response initialPrompt s =
     s\<lparr>npcProfile := JNull,
       isGenerating := False,
       elems := (elems s)
         (nextId s \<mapsto> plainMessage Npc statusText,
          Suc (nextId s) \<mapsto> plainMessage Npc contactFailedText),
       nextId := Suc (Suc (nextId s)),
       chatHistory := removeAll (nextId s) (chatHistory s) @ [Suc (nextId s)],
       chatInput_disabled := False,
       chatInput_placeholder := (if isFirstMessage s then placeholderSaySomething else placeholderContinue),
       submitButton_disabled := False,
       signalContainer_innerHTML := [],
       requests := requests s @ [GenerateContent (npcGenerationPrompt initialPrompt)]\<rparr>"
  using assms
  by (cases s) (auto simp: flow_defs js_simps)

lemma contact_no_instruction:
  assumes "response = Resolves t" and "JSON_parse t = Parsed v" and "v \<noteq> JNull"
    and "systemInstruction v = None"
  shows "generateNpcAndStartChat JSON_parse response initialPrompt s =
     s\<lparr>npcProfile := v,
       isGenerating := False,
       elems := (elems s)
         (nextId s \<mapsto> plainMessage Npc statusText,
          Suc (nextId s) \<mapsto> plainMessage Npc contactFailedText),
       nextId := Suc (Suc (nextId s)),
       chatHistory := removeAll (nextId s) (chatHistory s) @ [Suc (nextId s)],
       chatInput_disabled := False,
       chatInput_placeholder := (if isFirstMessage s then placeholderSaySomething else placeholderContinue),
       submitButton_disabled := False,
       portraitPlaceholder_hidden := (toStr (property v (js ''image_prompt'')) \<noteq> None),
       portraitPlaceholder_caption :=
         (if toStr (property v (js ''image_prompt'')) = None then imageFailedCaption
          else portraitPlaceholder_caption s),
       portraitLoader_hidden := (toStr (property v (js ''image_prompt'')) = None),
       npcImage_hidden := True,
       signalContainer_innerHTML := [],
       requests := requests s @
         GenerateContent (npcGenerationPrompt initialPrompt)
           # imageRequest (property v (js ''image_prompt'')),
       pendingImages := pendingImages s + length (imageRequest (property v (js ''image_prompt'')))\<rparr>"
  using assms
  by (cases s) (auto simp: flow_defs js_simps)

lemma contact_unrendered:
  assumes "response = Resolves t" and "JSON_parse t = Parsed v"
    and "systemInstruction v = Some instruction"
    and "\<not> rendered (property v (js ''first_message''))"
  shows "generateNpcAndStartChat JSON_parse response initialPrompt s =
     s\<lparr>isFirstMessage := False,
       chat := Some (Chat instruction),
       npcProfile := v,
       isGenerating := False,
       elems := (elems s)
         (nextId s \<mapsto> plainMessage Npc statusText,
          Suc (nextId s) \<mapsto>
            \<lparr>classList = [js ''message'', js ''npc-message'', js ''streaming'', js ''first-npc-reply''],
             p_childNodes = map TextNode (typed (property v (js ''first_message''))) @ [CursorSpan]\<rparr>,
          Suc (Suc (nextId s)) \<mapsto> plainMessage Npc contactFailedText),
       nextId := Suc (Suc (Suc (nextId s))),
       chatHistory := removeAll (nextId s) (chatHistory s) @ [Suc (nextId s), Suc (Suc (nextId s))],
       chatInput_disabled := False,
       chatInput_placeholder := placeholderContinue,
       submitButton_disabled := False,
       portraitPlaceholder_hidden := (toStr (property v (js ''image_prompt'')) \<noteq> None),
       portraitPlaceholder_caption :=
         (if toStr (property v (js ''image_prompt'')) = None then imageFailedCaption
          else portraitPlaceholder_caption s),
       portraitLoader_hidden := (toStr (property v (js ''image_prompt'')) = None),
       npcImage_hidden := True,
       signalContainer_innerHTML := [],
       requests := requests s @
         GenerateContent (npcGenerationPrompt initialPrompt)
           # imageRequest (property v (js ''image_prompt'')) @ [ChatsCreate instruction],
       pendingImages := pendingImages s + length (imageRequest (property v (js ''image_prompt'')))\<rparr>"
proof -
  have v: "v \<noteq> JNull"
    using assms(3) by (auto simp: systemInstruction_null)
  show ?thesis
  proof (cases "iterate (property v (js ''first_message''))")
    case None
    then have "typed (property v (js ''first_message'')) = []"
      by (simp add: typed_def)
    with None assms v show ?thesis
      by (cases s) (auto simp: flow_defs js_simps)
  next
    case (Some cs)
    then have "typed (property v (js ''first_message'')) = typedTexts cs" "\<not> completes cs"
      using assms(4) by (simp_all add: typed_def rendered_def)
    with Some assms v show ?thesis
      by (cases s) (auto simp: flow_defs js_simps typeNodes_fresh)
  qed
qed

lemma contact_established:
  assumes "response = Resolves t" and "JSON_parse t = Parsed v"
    and "systemInstruction v = Some instruction"
    and "rendered (property v (js ''first_message''))"
  shows "generateNpcAndStartChat JSON_parse response initialPrompt s =
     s\<lparr>isFirstMessage := False,
       chat := Some (Chat instruction),
       npcProfile := v,
       isGenerating := False,
       elems := (elems s)
         (nextId s \<mapsto> plainMessage Npc statusText,
          Suc (nextId s) \<mapsto>
            \<lparr>classList = [js ''message'', js ''npc-message'', js ''first-npc-reply''],
             p_childNodes = map TextNode (typed (property v (js ''first_message'')))\<rparr>),
       nextId := Suc (Suc (nextId s)),
       chatHistory := removeAll (nextId s) (chatHistory s) @ [Suc (nextId s)],
       chatInput_disabled := False,
       chatInput_placeholder := placeholderContinue,
       submitButton_disabled := False,
       portraitPlaceholder_hidden := (toStr (property v (js ''image_prompt'')) \<noteq> None),
       portraitPlaceholder_caption :=
         (if toStr (property v (js ''image_prompt'')) = None then imageFailedCaption
          else portraitPlaceholder_caption s),
       portraitLoader_hidden := (toStr (property v (js ''image_prompt'')) = None),
       npcImage_hidden := True,
       signalContainer_innerHTML := [],
       requests := requests s @
         GenerateContent (npcGenerationPrompt initialPrompt)
           # imageRequest (property v (js ''image_prompt'')) @ [ChatsCreate instruction],
       pendingImages := pendingImages s + length (imageRequest (property v (js ''image_prompt'')))\<rparr>"
proof -
  have v: "v \<noteq> JNull"
    using assms(3) by (auto simp: systemInstruction_null)
  obtain cs where cs: "iterate (property v (js ''first_message'')) = Some cs"
    "typed (property v (js ''first_message'')) = typedTexts cs" "completes cs"
    using assms(4) by (auto simp: rendered_def typed_def split: option.splits)
  with assms v show ?thesis
    by (cases s) (auto simp: flow_defs js_simps typeNodes_fresh remove1_cursor)
qed

lemma handleChatSubmit_chat:
  assumes "\<not> isGenerating s" and "trim (chatInput_value s) \<noteq> []" and "\<not> isFirstMessage s"
    and "chat s = Some c"
  shows "handleChatSubmit JSON_parse env s =
     (let s1 = setLoading True (echoed s);
          (r, s2) = chatTurn_try c (sendMessageStream_response env) (trim (chatInput_value s)) s1
      in setLoading False
           (case r of Normal \<Rightarrow> s2 | Thrown \<Rightarrow> snd (addMessageToUI chatFailedText Npc False s2)))"
  using assms by (simp add: handleChatSubmit_def echoed_def ui_defs js_simps Let_def)

lemma handleChatSubmit_no_chat:
  assumes "\<not> isGenerating s" and "trim (chatInput_value s) \<noteq> []" and "\<not> isFirstMessage s"
    and "chat s = None"
  shows "handleChatSubmit JSON_parse env s = echoed s"
  using assms by (simp add: handleChatSubmit_def echoed_def ui_defs js_simps Let_def)

lemma chat_rejected:
  assumes "\<not> isGenerating s" and "trim (chatInput_value s) \<noteq> []" and "\<not> isFirstMessage s"
    and "chat s = Some c" and "sendMessageStream_response env = Rejects"
  shows "handleChatSubmit JSON_parse env s =
     s\<lparr>isGenerating := False,
       elems := (elems s)
         (nextId s \<mapsto> plainMessage User (trim (chatInput_value s)),
          Suc (nextId s) \<mapsto> plainMessage Npc chatFailedText),
       nextId := Suc (Suc (nextId s)),
       chatHistory := chatHistory s @ [nextId s, Suc (nextId s)],
       chatInput_value := [],
       chatInput_disabled := False,
       chatInput_placeholder := placeholderContinue,
       submitButton_disabled := False,
       requests := requests s @ [SendMessageStream c (trim (chatInput_value s))]\<rparr>"
  unfolding handleChatSubmit_chat [OF assms(1-4)] using assms
  by (cases s) (auto simp: flow_defs echoed_def js_simps)

lemma chat_interrupted:
  assumes "\<not> isGenerating s" and "trim (chatInput_value s) \<noteq> []" and "\<not> isFirstMessage s"
    and "chat s = Some c" and "sendMessageStream_response env = Resolves (chunks, StreamThrows)"
  shows "handleChatSubmit JSON_parse env s =
     s\<lparr>isGenerating := False,
       elems := (elems s)
         (nextId s \<mapsto> plainMessage User (trim (chatInput_value s)),
          Suc (nextId s) \<mapsto>
            \<lparr>classList = [js ''message'', js ''npc-message'', js ''streaming''],
             p_childNodes = map TextNode (concat (map stringIterator chunks)) @ [CursorSpan]\<rparr>,
          Suc (Suc (nextId s)) \<mapsto> plainMessage Npc chatFailedText),
       nextId := Suc (Suc (Suc (nextId s))),
       chatHistory := chatHistory s @ [nextId s, Suc (nextId s), Suc (Suc (nextId s))],
       chatInput_value := [],
       chatInput_disabled := False,
       chatInput_placeholder := placeholderContinue,
       submitButton_disabled := False,
       requests := requests s @ [SendMessageStream c (trim (chatInput_value s))]\<rparr>"
  unfolding handleChatSubmit_chat [OF assms(1-4)] using assms
  by (cases s) (auto simp: flow_defs echoed_def js_simps typeNodes_fresh)

lemma chat_completed:
  assumes "\<not> isGenerating s" and "trim (chatInput_value s) \<noteq> []" and "\<not> isFirstMessage s"
    and "chat s = Some c" and "sendMessageStream_response env = Resolves (chunks, StreamDone)"
  shows "handleChatSubmit JSON_parse env s =
     s\<lparr>isGenerating := False,
       elems := (elems s)
         (nextId s \<mapsto> plainMessage User (trim (chatInput_value s)),
          Suc (nextId s) \<mapsto>
            \<lparr>classList = [js ''message'', js ''npc-message''],
             p_childNodes = map TextNode (concat (map stringIterator chunks))\<rparr>),
       nextId := Suc (Suc (nextId s)),
       chatHistory := chatHistory s @ [nextId s, Suc (nextId s)],
       chatInput_value := [],
       chatInput_disabled := False,
       chatInput_placeholder := placeholderContinue,
       submitButton_disabled := False,
       requests := requests s @ [SendMessageStream c (trim (chatInput_value s))]\<rparr>"
  unfolding handleChatSubmit_chat [OF assms(1-4)] using assms
  by (cases s) (auto simp: flow_defs echoed_def js_simps typeNodes_fresh remove1_cursor)

lemma image_settle_failed:
  assumes "response = Rejects \<or> response = Resolves []"
  shows "generateNpcImage_settle response s =
     s\<lparr>portraitPlaceholder_hidden := False,
       portraitPlaceholder_caption := imageFailedCaption,
       portraitLoader_hidden := True,
       pendingImages := pendingImages s - 1\<rparr>"
  using assms by (cases s) (auto simp: generateNpcImage_settle_def generateNpcImage_try_def
        generateNpcImage_catch_def generateNpcImage_finally_def)

lemma image_settle_succeeded:
  assumes "response = Resolves (base64ImageBytes # others)"
  shows "generateNpcImage_settle response s =
     s\<lparr>portraitLoader_hidden := True,
       npcImage_hidden := False,
       npcImage_src := js ''data:image/jpeg;base64,'' @ base64ImageBytes,
       pendingImages := pendingImages s - 1\<rparr>"
  using assms by (cases s) (auto simp: generateNpcImage_settle_def generateNpcImage_try_def
        generateNpcImage_catch_def generateNpcImage_finally_def)

lemma image_settle_cases:
  obtains (failed) "response = Rejects \<or> response = Resolves []"
  | (succeeded) b bs where "response = Resolves (b # bs)"
  by (metis settled.exhaust list.exhaust)

lemma stream_cases:
  fixes r :: "(jsstring list \<times> stream_end) settled"
  obtains (rejected) "r = Rejects"
  | (interrupted) chunks where "r = Resolves (chunks, StreamThrows)"
  | (completed) chunks where "r = Resolves (chunks, StreamDone)"
proof (cases r)
  case Rejects
  then show ?thesis by (rule rejected)
next
  case (Resolves x)
  obtain chunks ending where x: "x = (chunks, ending)" by (cases x)
  show ?thesis
  proof (cases ending)
    case StreamDone
    with Resolves x show ?thesis by (intro completed) simp
  next
    case StreamThrows
    with Resolves x show ?thesis by (intro interrupted) simp
  qed
qed

text \<open>The five ways the \<^verbatim>\<open>try\<close> block of \<open>generateNpcAndStartChat\<close> can go.\<close>

lemma contact_cases:
  fixes JSON_parse :: "jsstring \<Rightarrow> parsed" and response :: "jsstring settled"
  obtains (rejected) "response = Rejects \<or> (\<exists>t. response = Resolves t \<and> JSON_parse t = SyntaxError)"
  | (null) t where "response = Resolves t" "JSON_parse t = Parsed JNull"
  | (uninstructed) t v where "response = Resolves t" "JSON_parse t = Parsed v" "v \<noteq> JNull"
      "systemInstruction v = None"
  | (unrendered) t v i where "response = Resolves t" "JSON_parse t = Parsed v"
      "systemInstruction v = Some i" "\<not> rendered (property v (js ''first_message''))"
  | (established) t v i where "response = Resolves t" "JSON_parse t = Parsed v"
      "systemInstruction v = Some i" "rendered (property v (js ''first_message''))"
proof (cases response)
  case Rejects
  then show ?thesis by (intro rejected) simp
next
  case (Resolves t)
  show ?thesis
  proof (cases "JSON_parse t")
    case SyntaxError
    with Resolves show ?thesis by (intro rejected) simp
  next
    case (Parsed v)
    show ?thesis
    proof (cases "v = JNull")
      case True
      with Resolves Parsed show ?thesis by (intro null) simp_all
    next
      case False
      show ?thesis
      proof (cases "systemInstruction v")
        case None
        with Resolves Parsed False show ?thesis by (intro uninstructed) simp_all
      next
        case (Some i)
        with Resolves Parsed show ?thesis
          by (cases "rendered (property v (js ''first_message''))")
             (auto intro: unrendered established)
      qed
    qed
  qed
qed


text \<open>The \<^verbatim>\<open>try\<close> block of \<open>generateNpcAndStartChat\<close> clears the flag only after
  it has set the profile and the chat handle.\<close>

lemma contact_try_session:
  assumes "isFirstMessage x"
  shows "isFirstMessage (snd (generateNpcAndStartChat_try JSON_parse response statusMessage initialPrompt x))
       \<or> (chat (snd (generateNpcAndStartChat_try JSON_parse response statusMessage initialPrompt x)) \<noteq> None
          \<and> npcProfile (snd (generateNpcAndStartChat_try JSON_parse response statusMessage initialPrompt x)) \<noteq> JNull)"
proof (cases rule: contact_cases [where JSON_parse = JSON_parse and response = response])
  case rejected
  with assms show ?thesis
    by (cases x) (auto simp: flow_defs)
next
  case (null t)
  with assms show ?thesis
    by (cases x) (auto simp: flow_defs)
next
  case (uninstructed t v)
  with assms show ?thesis
    by (cases x) (auto simp: flow_defs)
next
  case (unrendered t v i)
  then have v: "v \<noteq> JNull"
    by (auto simp: systemInstruction_null)
  show ?thesis
  proof (cases "iterate (property v (js ''first_message''))")
    case None
    with unrendered v show ?thesis
      by (cases x) (auto simp: flow_defs)
  next
    case (Some cs)
    with unrendered v show ?thesis
      by (cases x) (auto simp: flow_defs)
  qed
next
  case (established t v i)
  then have v: "v \<noteq> JNull"
    by (auto simp: systemInstruction_null)
  show ?thesis
  proof (cases "iterate (property v (js ''first_message''))")
    case None
    with established v show ?thesis
      by (cases x) (auto simp: flow_defs)
  next
    case (Some cs)
    with established v show ?thesis
      by (cases x) (auto simp: flow_defs)
  qed
qed
section \<open>The session\<close>

lemma removeAll_fresh: "list_all (\<lambda>k. k < (n::nat)) xs \<Longrightarrow> removeAll n xs = xs"
  by (induction xs) auto

lemma fresh_notin: "list_all (\<lambda>k. k < (n::nat)) xs \<Longrightarrow> n \<notin> set xs"
  by (induction xs) auto

lemma list_all_less_mono: "list_all (\<lambda>k. k < (n::nat)) xs \<Longrightarrow> n \<le> m \<Longrightarrow> list_all (\<lambda>k. k < m) xs"
  by (induction xs) auto

lemma chatsCreated_simps:
  "chatsCreated [] = 0"
  "chatsCreated (rs @ rs') = chatsCreated rs + chatsCreated rs'"
  "chatsCreated (r # rs) = (if isChatsCreate r then 1 else 0) + chatsCreated rs"
  by (simp_all add: chatsCreated_def)

lemma profileRequests_simps:
  "profileRequests [] = 0"
  "profileRequests (rs @ rs') = profileRequests rs + profileRequests rs'"
  "profileRequests (r # rs) = (if isGenerateContent r then 1 else 0) + profileRequests rs"
  by (simp_all add: profileRequests_def)


lemma imageRequest_counts:
  "chatsCreated (imageRequest prompt) = 0" "profileRequests (imageRequest prompt) = 0"
  by (simp_all add: imageRequest_def chatsCreated_def profileRequests_def split: option.splits)

text \<open>What a run of \<open>generateNpcAndStartChat\<close> does to the session.\<close>

lemma contact_session:
  fixes s :: state and JSON_parse response initialPrompt
  defines "s' \<equiv> generateNpcAndStartChat JSON_parse response initialPrompt s"
  assumes wf: "list_all (\<lambda>k. k < nextId s) (chatHistory s)"
  shows "\<not> isGenerating s' \<and> list_all (\<lambda>k. k < nextId s') (chatHistory s')
       \<and> npcProfile s' =
           (case generatedProfile JSON_parse response of None \<Rightarrow> npcProfile s | Some v \<Rightarrow> v)
       \<and> (case contactInstruction JSON_parse response of
            None \<Rightarrow>
              isFirstMessage s' = isFirstMessage s \<and> chat s' = chat s
              \<and> chatsCreated (requests s') = chatsCreated (requests s)
          | Some i \<Rightarrow>
              \<not> isFirstMessage s' \<and> chat s' = Some (Chat i)
              \<and> requests s' = requests s @
                   GenerateContent (npcGenerationPrompt initialPrompt)
                     # imageRequest (property (npcProfile s') (js ''image_prompt''))
                     @ [ChatsCreate i]
              \<and> pendingImages s' = pendingImages s
                   + length (imageRequest (property (npcProfile s') (js ''image_prompt''))))"
proof -
  note fresh = removeAll_fresh [OF wf] list_all_less_mono [OF wf]
  show ?thesis
  proof (cases rule: contact_cases [where JSON_parse = JSON_parse and response = response])
    case rejected
    then have "generatedProfile JSON_parse response = None"
      "contactInstruction JSON_parse response = None"
      by (auto simp: generatedProfile_def contactInstruction_def)
    then show ?thesis
      unfolding s'_def contact_rejected [where JSON_parse = JSON_parse, OF rejected]
      using fresh by (simp add: chatsCreated_simps)
  next
    case (null t)
    then have "generatedProfile JSON_parse response = Some JNull"
      "contactInstruction JSON_parse response = None"
      by (auto simp: generatedProfile_def contactInstruction_def systemInstruction_null)
    then show ?thesis
      unfolding s'_def contact_null [where JSON_parse = JSON_parse, OF null]
      using fresh by (simp add: chatsCreated_simps)
  next
    case (uninstructed t v)
    then have "generatedProfile JSON_parse response = Some v"
      "contactInstruction JSON_parse response = None"
      by (auto simp: generatedProfile_def contactInstruction_def)
    then show ?thesis
      unfolding s'_def contact_no_instruction [where JSON_parse = JSON_parse, OF uninstructed]
      using fresh by (simp add: chatsCreated_simps imageRequest_counts)
  next
    case (unrendered t v i)
    then have "generatedProfile JSON_parse response = Some v"
      "contactInstruction JSON_parse response = Some i"
      by (auto simp: generatedProfile_def contactInstruction_def)
    then show ?thesis
      unfolding s'_def contact_unrendered [where JSON_parse = JSON_parse, OF unrendered]
      using fresh by simp
  next
    case (established t v i)
    then have "generatedProfile JSON_parse response = Some v"
      "contactInstruction JSON_parse response = Some i"
      by (auto simp: generatedProfile_def contactInstruction_def)
    then show ?thesis
      unfolding s'_def contact_established [where JSON_parse = JSON_parse, OF established]
      using fresh by simp
  qed
qed

text \<open>What a submission does to the session.\<close>

lemma submit_session:
  fixes s :: state and JSON_parse env
  defines "s' \<equiv> handleChatSubmit JSON_parse env s"
  assumes idle: "\<not> isGenerating s"
    and wf: "list_all (\<lambda>k. k < nextId s) (chatHistory s)"
    and input: "trim (chatInput_value s) \<noteq> []"
  shows "\<not> isGenerating s' \<and> list_all (\<lambda>k. k < nextId s') (chatHistory s')
       \<and> (isFirstMessage s \<longrightarrow>
            npcProfile s' =
              (case generatedProfile JSON_parse (generateContent_response env) of
                 None \<Rightarrow> npcProfile s | Some v \<Rightarrow> v)
            \<and> (case contactInstruction JSON_parse (generateContent_response env) of
               None \<Rightarrow>
                 isFirstMessage s' \<and> chat s' = chat s
                 \<and> chatsCreated (requests s') = chatsCreated (requests s)
             | Some i \<Rightarrow>
                 \<not> isFirstMessage s' \<and> chat s' = Some (Chat i)
                 \<and> requests s' = requests s @
                      GenerateContent (npcGenerationPrompt (trim (chatInput_value s)))
                        # imageRequest (property (npcProfile s') (js ''image_prompt''))
                        @ [ChatsCreate i]
                 \<and> pendingImages s' = pendingImages s
                      + length (imageRequest (property (npcProfile s') (js ''image_prompt'')))))
       \<and> (\<not> isFirstMessage s \<longrightarrow>
            \<not> isFirstMessage s' \<and> chat s' = chat s \<and> npcProfile s' = npcProfile s
            \<and> pendingImages s' = pendingImages s
            \<and> requests s' = requests s @
                 (case chat s of
                    None \<Rightarrow> []
                  | Some c \<Rightarrow> [SendMessageStream c (trim (chatInput_value s))]))"
proof (cases "isFirstMessage s")
  case True
  define s0 where "s0 = (echoed s)\<lparr>signalContainer_innerHTML := signalVines\<rparr>"
  have s0: "nextId s0 = Suc (nextId s)" "chatHistory s0 = chatHistory s @ [nextId s]"
    "isFirstMessage s0 = isFirstMessage s" "chat s0 = chat s" "npcProfile s0 = npcProfile s"
    "requests s0 = requests s" "pendingImages s0 = pendingImages s"
    by (simp_all add: s0_def echoed_def)
  have wf0: "list_all (\<lambda>k. k < nextId s0) (chatHistory s0)"
    using list_all_less_mono [OF wf, of "Suc (nextId s)"] by (simp add: s0)
  have eq: "s' = generateNpcAndStartChat JSON_parse (generateContent_response env)
               (trim (chatInput_value s)) s0"
    unfolding s'_def s0_def using handleChatSubmit_first [OF idle input True] .
  note C = contact_session [OF wf0, of JSON_parse "generateContent_response env"
      "trim (chatInput_value s)", folded eq]
  show ?thesis
  proof (cases "contactInstruction JSON_parse (generateContent_response env)")
    case None
    with C True show ?thesis by (simp add: s0 cong: option.case_cong)
  next
    case (Some i)
    with C True show ?thesis by (simp add: s0 cong: option.case_cong)
  qed
next
  case False
  have frame: "list_all (\<lambda>k. k < m) (chatHistory s)" if "nextId s \<le> m" for m
    using list_all_less_mono [OF wf that] .
  show ?thesis
  proof (cases "chat s")
    case None
    have eq: "s' = echoed s"
      unfolding s'_def using handleChatSubmit_no_chat [OF idle input False None] .
    have "isGenerating s' = isGenerating s" "nextId s' = Suc (nextId s)"
      "chatHistory s' = chatHistory s @ [nextId s]" "isFirstMessage s' = isFirstMessage s"
      "chat s' = chat s" "npcProfile s' = npcProfile s" "requests s' = requests s"
      "pendingImages s' = pendingImages s"
      by (simp_all add: eq echoed_def)
    then show ?thesis using False None idle frame by simp
  next
    case (Some c)
    have "isGenerating s' = False \<and> nextId s \<le> nextId s'
        \<and> (\<exists>ks. chatHistory s' = chatHistory s @ ks \<and> list_all (\<lambda>k. k < nextId s') ks)
        \<and> isFirstMessage s' = isFirstMessage s \<and> chat s' = chat s
        \<and> npcProfile s' = npcProfile s
        \<and> requests s' = requests s @ [SendMessageStream c (trim (chatInput_value s))]
        \<and> pendingImages s' = pendingImages s"
    proof (cases "sendMessageStream_response env" rule: stream_cases)
      case rejected
      show ?thesis
        unfolding s'_def chat_rejected [OF idle input False Some rejected] by simp
    next
      case interrupted
      show ?thesis
        unfolding s'_def chat_interrupted [OF idle input False Some interrupted] by simp
    next
      case completed
      show ?thesis
        unfolding s'_def chat_completed [OF idle input False Some completed] by simp
    qed
    then show ?thesis using False Some frame by auto
  qed
qed

text \<open>
  The invariant of the session. While the first-message flag is set there is no chat
  session, and what the profile variable holds (nothing, or what a failed attempt left
  there) yields no system instruction. Once the flag is cleared the chat session is the
  one created with the system instruction of the profile.
\<close>

lemma reachable_invariant:
  assumes "reachable JSON_parse s"
  shows "\<not> isGenerating s \<and> list_all (\<lambda>k. k < nextId s) (chatHistory s)
       \<and> (if isFirstMessage s
           then chat s = None \<and> systemInstruction (npcProfile s) = None
                \<and> chatsCreated (requests s) = 0
           else (\<exists>i. systemInstruction (npcProfile s) = Some i \<and> chat s = Some (Chat i))
                \<and> chatsCreated (requests s) = 1)"
  using assms
proof (induction rule: reachable.induct)
  case (reachable_initial s)
  then show ?case by (simp add: initial_def chatsCreated_simps systemInstruction_null)
next
  case (reachable_step s e)
  show ?case
  proof (cases e)
    case (UserSubmits v env)
    let ?s = "s\<lparr>chatInput_value := v\<rparr>"
    show ?thesis
    proof (cases "trim v = []")
      case True
      then show ?thesis
        using reachable_step.IH UserSubmits by (simp add: handleChatSubmit_ignored)
    next
      case False
      have "\<not> isGenerating ?s" "list_all (\<lambda>k. k < nextId ?s) (chatHistory ?s)"
        "trim (chatInput_value ?s) \<noteq> []"
        using reachable_step.IH False by simp_all
      note S = submit_session [OF this, of JSON_parse env]
      show ?thesis
      proof (cases "isFirstMessage s")
        case True
        show ?thesis
        proof (cases "contactInstruction JSON_parse (generateContent_response env)")
          case None
          with S True reachable_step.IH show ?thesis
            unfolding UserSubmits step.simps
            by (auto simp: contactInstruction_def split: option.splits)
        next
          case (Some i)
          with S True reachable_step.IH show ?thesis
            unfolding UserSubmits step.simps
            by (auto simp: contactInstruction_def chatsCreated_simps imageRequest_counts
                split: option.splits)
        qed
      next
        case False
        with S reachable_step.IH show ?thesis
          unfolding UserSubmits step.simps by (auto simp: chatsCreated_simps)
      qed
    qed
  next
    case (ImageSettles response)
    show ?thesis
      using reachable_step.IH unfolding ImageSettles
      by (cases response rule: image_settle_cases)
         (auto simp: image_settle_failed image_settle_succeeded)
  qed
qed

text \<open>What one event does to the session variables of a reachable state.\<close>

lemma step_session:
  assumes "reachable JSON_parse s"
  shows "(\<not> isFirstMessage s \<longrightarrow>
            \<not> isFirstMessage (step JSON_parse s e) \<and> chat (step JSON_parse s e) = chat s
          \<and> npcProfile (step JSON_parse s e) = npcProfile s
          \<and> chatsCreated (requests (step JSON_parse s e)) = chatsCreated (requests s)
          \<and> profileRequests (requests (step JSON_parse s e)) = profileRequests (requests s))
       \<and> (isFirstMessage s \<longrightarrow>
            (\<not> isFirstMessage (step JSON_parse s e) \<longleftrightarrow>
               (\<exists>v env. e = UserSubmits v env \<and> trim v \<noteq> []
                  \<and> contactInstruction JSON_parse (generateContent_response env) \<noteq> None)))
       \<and> (npcProfile (step JSON_parse s e) \<noteq> npcProfile s \<longrightarrow>
            isFirstMessage s
          \<and> (\<exists>v env. e = UserSubmits v env \<and> trim v \<noteq> []
                \<and> generatedProfile JSON_parse (generateContent_response env)
                    = Some (npcProfile (step JSON_parse s e))))"
proof -
  note inv = reachable_invariant [OF assms]
  show ?thesis
  proof (cases e)
    case (UserSubmits v env)
    let ?s = "s\<lparr>chatInput_value := v\<rparr>"
    show ?thesis
    proof (cases "trim v = []")
      case True
      then show ?thesis
        using inv UserSubmits by (simp add: handleChatSubmit_ignored)
    next
      case False
      have "\<not> isGenerating ?s" "list_all (\<lambda>k. k < nextId ?s) (chatHistory ?s)"
        "trim (chatInput_value ?s) \<noteq> []"
        using inv False by simp_all
      note S = submit_session [OF this, of JSON_parse env]
      show ?thesis
      proof (cases "isFirstMessage s")
        case True
        show ?thesis
        proof (cases "contactInstruction JSON_parse (generateContent_response env)")
          case None
          with S True inv False show ?thesis
            unfolding UserSubmits step.simps by (auto split: option.splits)
        next
          case (Some i)
          with S True inv False show ?thesis
            unfolding UserSubmits step.simps by (auto split: option.splits)
        qed
      next
        case False
        with S inv show ?thesis
          unfolding UserSubmits step.simps
          by (auto simp: chatsCreated_simps profileRequests_simps split: option.splits)
      qed
    qed
  next
    case (ImageSettles response)
    show ?thesis
      using inv unfolding ImageSettles
      by (cases response rule: image_settle_cases)
         (auto simp: image_settle_failed image_settle_succeeded)
  qed
qed

text \<open>A submission in dialogue is sent to the chat session, once.\<close>

lemma dialogue_submission:
  assumes "reachable JSON_parse s" and "\<not> isFirstMessage s" and "trim v \<noteq> []"
  shows "\<exists>c. chat s = Some c
       \<and> requests (step JSON_parse s (UserSubmits v env)) = requests s @ [SendMessageStream c (trim v)]"
proof -
  note inv = reachable_invariant [OF assms(1)]
  let ?s = "s\<lparr>chatInput_value := v\<rparr>"
  have "\<not> isGenerating ?s" "list_all (\<lambda>k. k < nextId ?s) (chatHistory ?s)"
    "trim (chatInput_value ?s) \<noteq> []"
    using inv assms(3) by simp_all
  from submit_session [OF this, of JSON_parse env] inv assms(2)
  show ?thesis by auto
qed

text \<open>The echo of an accepted submission stays in the transcript.\<close>

lemma submit_echo:
  fixes s :: state and JSON_parse env
  defines "s' \<equiv> handleChatSubmit JSON_parse env s"
  assumes idle: "\<not> isGenerating s" and input: "trim (chatInput_value s) \<noteq> []"
  shows "elems s' (nextId s) = Some (plainMessage User (trim (chatInput_value s)))
       \<and> nextId s \<in> set (chatHistory s')"
proof (cases "isFirstMessage s")
  case True
  define s0 where "s0 = (echoed s)\<lparr>signalContainer_innerHTML := signalVines\<rparr>"
  have s0: "nextId s0 = Suc (nextId s)" "chatHistory s0 = chatHistory s @ [nextId s]"
    "elems s0 (nextId s) = Some (plainMessage User (trim (chatInput_value s)))"
    by (simp_all add: s0_def echoed_def)
  have eq: "s' = generateNpcAndStartChat JSON_parse (generateContent_response env)
               (trim (chatInput_value s)) s0"
    unfolding s'_def s0_def using handleChatSubmit_first [OF idle input True] .
  show ?thesis
  proof (cases rule: contact_cases [where JSON_parse = JSON_parse and response = "generateContent_response env"])
    case rejected
    show ?thesis
      unfolding eq contact_rejected [where JSON_parse = JSON_parse, OF rejected] by (simp add: s0)
  next
    case (null t)
    show ?thesis
      unfolding eq contact_null [where JSON_parse = JSON_parse, OF null] by (simp add: s0)
  next
    case (uninstructed t v)
    show ?thesis
      unfolding eq contact_no_instruction [where JSON_parse = JSON_parse, OF uninstructed]
      by (simp add: s0)
  next
    case (unrendered t v i)
    show ?thesis
      unfolding eq contact_unrendered [where JSON_parse = JSON_parse, OF unrendered]
      by (simp add: s0)
  next
    case (established t v i)
    show ?thesis
      unfolding eq contact_established [where JSON_parse = JSON_parse, OF established]
      by (simp add: s0)
  qed
next
  case False
  show ?thesis
  proof (cases "chat s")
    case None
    show ?thesis
      unfolding s'_def handleChatSubmit_no_chat [OF idle input False None] by (simp add: echoed_def)
  next
    case (Some c)
    show ?thesis
    proof (cases "sendMessageStream_response env" rule: stream_cases)
      case rejected
      show ?thesis
        unfolding s'_def chat_rejected [OF idle input False Some rejected] by simp
    next
      case interrupted
      show ?thesis
        unfolding s'_def chat_interrupted [OF idle input False Some interrupted] by simp
    next
      case completed
      show ?thesis
        unfolding s'_def chat_completed [OF idle input False Some completed] by simp
    qed
  qed
qed

text \<open>A chat turn and the settling of the image request do not see each other.\<close>

lemma portrait_frame:
  fixes s :: state
  defines "U \<equiv> \<lambda>a b c d e n (x :: state).
      x\<lparr>portraitPlaceholder_hidden := a, portraitPlaceholder_caption := b,
        portraitLoader_hidden := c, npcImage_hidden := d, npcImage_src := e,
        pendingImages := n\<rparr>"
  assumes dialogue: "\<not> isFirstMessage s"
  shows "handleChatSubmit JSON_parse env (U a b c d e n s) = U a b c d e n (handleChatSubmit JSON_parse env s)"
proof (cases "isGenerating s \<or> trim (chatInput_value s) = []")
  case True
  then have "isGenerating (U a b c d e n s) \<or> trim (chatInput_value (U a b c d e n s)) = []"
    by (simp add: U_def)
  then show ?thesis
    using True by (simp add: handleChatSubmit_ignored)
next
  case False
  then have idle: "\<not> isGenerating s" and input: "trim (chatInput_value s) \<noteq> []"
    by simp_all
  have idle': "\<not> isGenerating (U a b c d e n s)"
    and input': "trim (chatInput_value (U a b c d e n s)) \<noteq> []"
    and dialogue': "\<not> isFirstMessage (U a b c d e n s)"
    using idle input dialogue by (simp_all add: U_def)
  show ?thesis
  proof (cases "chat s")
    case None
    then have None': "chat (U a b c d e n s) = None" by (simp add: U_def)
    show ?thesis
      unfolding handleChatSubmit_no_chat [OF idle input dialogue None]
        handleChatSubmit_no_chat [OF idle' input' dialogue' None']
      by (cases s) (simp add: U_def echoed_def)
  next
    case (Some h)
    then have Some': "chat (U a b c d e n s) = Some h" by (simp add: U_def)
    show ?thesis
    proof (cases "sendMessageStream_response env" rule: stream_cases)
      case rejected
      show ?thesis
        unfolding chat_rejected [OF idle input dialogue Some rejected]
          chat_rejected [OF idle' input' dialogue' Some' rejected]
        by (cases s) (simp add: U_def)
    next
      case (interrupted chunks)
      show ?thesis
        unfolding chat_interrupted [OF idle input dialogue Some interrupted]
          chat_interrupted [OF idle' input' dialogue' Some' interrupted]
        by (cases s) (simp add: U_def)
    next
      case (completed chunks)
      show ?thesis
        unfolding chat_completed [OF idle input dialogue Some completed]
          chat_completed [OF idle' input' dialogue' Some' completed]
        by (cases s) (simp add: U_def)
    qed
  qed
qed

lemma dialogue_portrait:
  assumes "\<not> isFirstMessage s"
  shows "pendingImages (handleChatSubmit JSON_parse env s) = pendingImages s"
    and "npcImage_hidden (handleChatSubmit JSON_parse env s) = npcImage_hidden s"
    and "npcImage_src (handleChatSubmit JSON_parse env s) = npcImage_src s"
    and "portraitPlaceholder_hidden (handleChatSubmit JSON_parse env s) = portraitPlaceholder_hidden s"
    and "portraitPlaceholder_caption (handleChatSubmit JSON_parse env s) = portraitPlaceholder_caption s"
proof -
  have "s\<lparr>portraitPlaceholder_hidden := portraitPlaceholder_hidden s,
          portraitPlaceholder_caption := portraitPlaceholder_caption s,
          portraitLoader_hidden := portraitLoader_hidden s,
          npcImage_hidden := npcImage_hidden s, npcImage_src := npcImage_src s,
          pendingImages := pendingImages s\<rparr> = s"
    by simp
  with portrait_frame [OF assms, where JSON_parse = JSON_parse and env = env
      and a = "portraitPlaceholder_hidden s" and b = "portraitPlaceholder_caption s"
      and c = "portraitLoader_hidden s" and d = "npcImage_hidden s"
      and e = "npcImage_src s" and n = "pendingImages s"]
  have eq: "handleChatSubmit JSON_parse env s =
      (handleChatSubmit JSON_parse env s)
        \<lparr>portraitPlaceholder_hidden := portraitPlaceholder_hidden s,
          portraitPlaceholder_caption := portraitPlaceholder_caption s,
          portraitLoader_hidden := portraitLoader_hidden s,
          npcImage_hidden := npcImage_hidden s, npcImage_src := npcImage_src s,
          pendingImages := pendingImages s\<rparr>"
    by simp
  show "pendingImages (handleChatSubmit JSON_parse env s) = pendingImages s"
    by (subst eq) simp
  show "npcImage_hidden (handleChatSubmit JSON_parse env s) = npcImage_hidden s"
    by (subst eq) simp
  show "npcImage_src (handleChatSubmit JSON_parse env s) = npcImage_src s"
    by (subst eq) simp
  show "portraitPlaceholder_hidden (handleChatSubmit JSON_parse env s) = portraitPlaceholder_hidden s"
    by (subst eq) simp
  show "portraitPlaceholder_caption (handleChatSubmit JSON_parse env s) = portraitPlaceholder_caption s"
    by (subst eq) simp
qed

lemma settle_commutes:
  assumes "\<not> isFirstMessage s"
  shows "handleChatSubmit JSON_parse env (generateNpcImage_settle r s)
       = generateNpcImage_settle r (handleChatSubmit JSON_parse env s)"
proof (cases r rule: image_settle_cases)
  case failed
  have "handleChatSubmit JSON_parse env (generateNpcImage_settle r s)
      = handleChatSubmit JSON_parse env
          (s\<lparr>portraitPlaceholder_hidden := False,
             portraitPlaceholder_caption := imageFailedCaption,
             portraitLoader_hidden := True,
             npcImage_hidden := npcImage_hidden s, npcImage_src := npcImage_src s,
             pendingImages := pendingImages s - 1\<rparr>)"
    by (simp add: image_settle_failed [OF failed])
  also have "\<dots> = generateNpcImage_settle r (handleChatSubmit JSON_parse env s)"
    unfolding portrait_frame [OF assms] image_settle_failed [OF failed]
    by (simp add: dialogue_portrait [OF assms])
  finally show ?thesis .
next
  case (succeeded b bs)
  have "handleChatSubmit JSON_parse env (generateNpcImage_settle r s)
      = handleChatSubmit JSON_parse env
          (s\<lparr>portraitPlaceholder_hidden := portraitPlaceholder_hidden s,
             portraitPlaceholder_caption := portraitPlaceholder_caption s,
             portraitLoader_hidden := True,
             npcImage_hidden := False, npcImage_src := js ''data:image/jpeg;base64,'' @ b,
             pendingImages := pendingImages s - 1\<rparr>)"
    by (simp add: image_settle_succeeded [OF succeeded])
  also have "\<dots> = generateNpcImage_settle r (handleChatSubmit JSON_parse env s)"
    unfolding portrait_frame [OF assms] image_settle_succeeded [OF succeeded]
    by (simp add: dialogue_portrait [OF assms])
  finally show ?thesis .
qed

subsection \<open>The sample sessions\<close>

lemma reachable_emptyPage: "reachable JSON_parse emptyPage"
  by (rule reachable_initial) (simp add: initial_def emptyPage_def)

lemma sampleParse_simps:
  "sampleParse sampleText = Parsed sampleProfile"
  "sampleParse silentText = Parsed silentProfile"
  "sampleParse unprintableText = Parsed unprintableProfile"
  "sampleParse unpaintableText = Parsed unpaintableProfile"
  by (simp_all add: sampleParse_def sampleText_def silentText_def unprintableText_def
      unpaintableText_def)

lemma sample_instructions:
  "systemInstruction sampleProfile = Some sampleInstruction"
  "systemInstruction silentProfile = Some silentInstruction"
  "systemInstruction unpaintableProfile = Some silentInstruction"
  "systemInstruction unprintableProfile = None"
  by (simp_all add: systemInstruction_def sampleProfile_def silentProfile_def
      unprintableProfile_def unpaintableProfile_def sampleInstruction_def silentInstruction_def
      js_simps)

lemma sample_properties:
  "property sampleProfile (js ''first_message'') = Some (JString (js ''Oh, hi. Is it you?''))"
  "toStr (property sampleProfile (js ''image_prompt'')) = Some (js ''a fern on a sill'')"
  "property silentProfile (js ''first_message'') = None"
  "toStr (property silentProfile (js ''image_prompt'')) = Some (js ''undefined'')"
  "toStr (property unprintableProfile (js ''image_prompt'')) = Some (js ''undefined'')"
  "toStr (property unpaintableProfile (js ''image_prompt'')) = None"
  by (simp_all add: sampleProfile_def silentProfile_def unprintableProfile_def
      unpaintableProfile_def js_simps)

lemma sample_generated:
  "generatedProfile sampleParse (Resolves sampleText) = Some sampleProfile"
  "generatedProfile sampleParse (Resolves silentText) = Some silentProfile"
  "generatedProfile sampleParse (Resolves unprintableText) = Some unprintableProfile"
  "generatedProfile sampleParse (Resolves unpaintableText) = Some unpaintableProfile"
  "generatedProfile sampleParse Rejects = None"
  by (simp_all add: generatedProfile_def sampleParse_simps)

lemma sample_contact:
  "contactInstruction sampleParse (Resolves sampleText) = Some sampleInstruction"
  "contactInstruction sampleParse (Resolves silentText) = Some silentInstruction"
  "contactInstruction sampleParse (Resolves unprintableText) = None"
  "contactInstruction sampleParse Rejects = None"
  by (simp_all add: contactInstruction_def sample_generated sample_instructions)

lemma sample_answers:
  "generateContent_response sampleAnswers = Resolves sampleText"
  "generateContent_response silentAnswers = Resolves silentText"
  "generateContent_response unprintableAnswers = Resolves unprintableText"
  "generateContent_response failingAnswers = Rejects"
  by (simp_all add: sampleAnswers_def silentAnswers_def unprintableAnswers_def failingAnswers_def)

lemma sample_profiles_differ:
  "sampleProfile \<noteq> JNull" "unprintableProfile \<noteq> JNull" "sampleProfile \<noteq> unprintableProfile"
  by (simp_all add: sampleProfile_def unprintableProfile_def)

lemma reachable_inDialogue: "reachable sampleParse inDialogue"
  unfolding inDialogue_def by (rule reachable_step [OF reachable_emptyPage])

lemma reachable_afterSilent: "reachable sampleParse afterSilent"
  unfolding afterSilent_def by (rule reachable_step [OF reachable_emptyPage])

lemma reachable_afterUnprintable: "reachable sampleParse afterUnprintable"
  unfolding afterUnprintable_def by (rule reachable_step [OF reachable_emptyPage])

lemma reachable_afterRetry: "reachable sampleParse afterRetry"
  unfolding afterRetry_def by (rule reachable_step [OF reachable_afterUnprintable])

lemma first_submission:
  "\<not> isGenerating (emptyPage\<lparr>chatInput_value := js ''  hello ''\<rparr>)"
  "list_all (\<lambda>k. k < nextId (emptyPage\<lparr>chatInput_value := js ''  hello ''\<rparr>))
     (chatHistory (emptyPage\<lparr>chatInput_value := js ''  hello ''\<rparr>))"
  "trim (chatInput_value (emptyPage\<lparr>chatInput_value := js ''  hello ''\<rparr>)) \<noteq> []"
  by (simp_all add: emptyPage_def trim_def isWhiteSpace_def js_simps)

lemma inDialogue_session:
  "\<not> isFirstMessage inDialogue"
  "npcProfile inDialogue = sampleProfile"
  "chat inDialogue = Some (Chat sampleInstruction)"
  "pendingImages inDialogue = 1"
  using submit_session [OF first_submission, of sampleParse sampleAnswers]
  by (simp_all add: inDialogue_def emptyPage_def sample_answers sample_generated sample_contact
      sample_properties imageRequest_def)

lemma afterSilent_session:
  "\<not> isFirstMessage afterSilent"
  "npcProfile afterSilent = silentProfile"
  "chat afterSilent = Some (Chat silentInstruction)"
  "chatsCreated (requests afterSilent) = 1"
  using submit_session [OF first_submission, of sampleParse silentAnswers]
    reachable_invariant [OF reachable_afterSilent]
  by (simp_all add: afterSilent_def emptyPage_def sample_answers sample_generated sample_contact)

lemma afterSilent_transcript:
  "elems afterSilent (last (chatHistory afterSilent)) = Some (plainMessage Npc contactFailedText)"
  "chatInput_placeholder afterSilent = placeholderContinue"
proof -
  let ?s = "emptyPage\<lparr>chatInput_value := js ''  hello ''\<rparr>"
  have first: "isFirstMessage ?s"
    by (simp add: emptyPage_def)
  have silent: "\<not> rendered (property silentProfile (js ''first_message''))"
    by (simp add: sample_properties rendered_def)
  have eq: "afterSilent = generateNpcAndStartChat sampleParse (Resolves silentText)
      (trim (chatInput_value ?s)) ((echoed ?s)\<lparr>signalContainer_innerHTML := signalVines\<rparr>)"
    unfolding afterSilent_def step.simps
    using handleChatSubmit_first [OF first_submission(1,3) first, of sampleParse silentAnswers]
    by (simp add: sample_answers)
  note run = contact_unrendered [where JSON_parse = sampleParse and t = silentText
      and v = silentProfile and instruction = silentInstruction, OF refl sampleParse_simps(2)
      sample_instructions(2) silent]
  show "elems afterSilent (last (chatHistory afterSilent)) = Some (plainMessage Npc contactFailedText)"
    unfolding eq run by simp
  show "chatInput_placeholder afterSilent = placeholderContinue"
    unfolding eq run by simp
qed

lemma afterUnprintable_session:
  "isFirstMessage afterUnprintable"
  "npcProfile afterUnprintable = unprintableProfile"
  "chat afterUnprintable = None"
  using submit_session [OF first_submission, of sampleParse unprintableAnswers]
  by (simp_all add: afterUnprintable_def emptyPage_def sample_answers sample_generated
      sample_contact)

lemma afterRetry_session:
  "\<not> isFirstMessage afterRetry"
  "npcProfile afterRetry = sampleProfile"
  "chat afterRetry = Some (Chat sampleInstruction)"
proof -
  let ?s = "afterUnprintable\<lparr>chatInput_value := js ''  hello ''\<rparr>"
  have "\<not> isGenerating ?s" "list_all (\<lambda>k. k < nextId ?s) (chatHistory ?s)"
    "trim (chatInput_value ?s) \<noteq> []"
    using reachable_invariant [OF reachable_afterUnprintable]
    by (simp_all add: trim_def isWhiteSpace_def js_simps)
  from submit_session [OF this, of sampleParse sampleAnswers] afterUnprintable_session
  show "\<not> isFirstMessage afterRetry" "npcProfile afterRetry = sampleProfile"
    "chat afterRetry = Some (Chat sampleInstruction)"
    by (simp_all add: afterRetry_def sample_answers sample_generated sample_contact)
qed

section \<open>Properties of the conversation\<close>

text \<open>
  C1. When a streamed message completes, its element holds one text node per character
  of the input, in order, so that its text is the input itself: the first message of the
  profile (a string) after a contact that got as far as the typing loop, the concatenation
  of all chunks after a chat turn whose stream ends, however the reply was cut into chunks.
  The element is the last one of the transcript, the cursor is gone and the class
  \<open>streaming\<close> is removed.
\<close>

theorem streamed_text_complete:
  assumes "\<not> isGenerating s" and "trim (chatInput_value s) \<noteq> []"
  shows "(isFirstMessage s \<and> generateContent_response env = Resolves t
          \<and> JSON_parse t = Parsed p \<and> systemInstruction p \<noteq> None
          \<and> property p (js ''first_message'') = Some (JString first_message) \<longrightarrow>
            (\<exists>e. elems (handleChatSubmit JSON_parse env s) (Suc (Suc (nextId s))) = Some e
               \<and> last (chatHistory (handleChatSubmit JSON_parse env s)) = Suc (Suc (nextId s))
               \<and> p_childNodes e = map TextNode (stringIterator first_message)
               \<and> textContent (p_childNodes e) = first_message
               \<and> CursorSpan \<notin> set (p_childNodes e)
               \<and> js ''streaming'' \<notin> set (classList e)))
       \<and> (\<not> isFirstMessage s \<and> chat s = Some c
          \<and> sendMessageStream_response env = Resolves (chunks, StreamDone) \<longrightarrow>
            (\<exists>e. elems (handleChatSubmit JSON_parse env s) (Suc (nextId s)) = Some e
               \<and> last (chatHistory (handleChatSubmit JSON_parse env s)) = Suc (nextId s)
               \<and> p_childNodes e = map TextNode (concat (map stringIterator chunks))
               \<and> textContent (p_childNodes e) = concat chunks
               \<and> CursorSpan \<notin> set (p_childNodes e)
               \<and> js ''streaming'' \<notin> set (classList e)))"
proof (intro conjI impI)
  assume a: "isFirstMessage s \<and> generateContent_response env = Resolves t
          \<and> JSON_parse t = Parsed p \<and> systemInstruction p \<noteq> None
          \<and> property p (js ''first_message'') = Some (JString first_message)"
  then obtain i where i: "systemInstruction p = Some i"
    by auto
  have r: "rendered (property p (js ''first_message''))"
    "typed (property p (js ''first_message'')) = stringIterator first_message"
    using a by (simp_all add: rendered_string)
  define s0 where "s0 = (echoed s)\<lparr>signalContainer_innerHTML := signalVines\<rparr>"
  have s0: "nextId s0 = Suc (nextId s)"
    by (simp add: s0_def echoed_def)
  have "handleChatSubmit JSON_parse env s
      = generateNpcAndStartChat JSON_parse (generateContent_response env)
          (trim (chatInput_value s)) s0"
    unfolding s0_def using handleChatSubmit_first [OF assms] a by simp
  also note contact_established [where JSON_parse = JSON_parse and s = s0
      and response = "generateContent_response env" and initialPrompt = "trim (chatInput_value s)"
      and t = t and v = p and instruction = i]
  finally show "\<exists>e. elems (handleChatSubmit JSON_parse env s) (Suc (Suc (nextId s))) = Some e
               \<and> last (chatHistory (handleChatSubmit JSON_parse env s)) = Suc (Suc (nextId s))
               \<and> p_childNodes e = map TextNode (stringIterator first_message)
               \<and> textContent (p_childNodes e) = first_message
               \<and> CursorSpan \<notin> set (p_childNodes e)
               \<and> js ''streaming'' \<notin> set (classList e)"
    using a i r by (auto simp: s0 textContent_TextNodes concat_stringIterator js_simps)
next
  assume a: "\<not> isFirstMessage s \<and> chat s = Some c
          \<and> sendMessageStream_response env = Resolves (chunks, StreamDone)"
  then have "\<not> isFirstMessage s" "chat s = Some c"
    "sendMessageStream_response env = Resolves (chunks, StreamDone)"
    by simp_all
  note eq = chat_completed [OF assms this, of JSON_parse]
  show "\<exists>e. elems (handleChatSubmit JSON_parse env s) (Suc (nextId s)) = Some e
               \<and> last (chatHistory (handleChatSubmit JSON_parse env s)) = Suc (nextId s)
               \<and> p_childNodes e = map TextNode (concat (map stringIterator chunks))
               \<and> textContent (p_childNodes e) = concat chunks
               \<and> CursorSpan \<notin> set (p_childNodes e)
               \<and> js ''streaming'' \<notin> set (classList e)"
    unfolding eq
    by (auto simp: textContent_TextNodes concat_chunks js_simps)
qed

theorem streamed_text_complete_witness:
  "\<not> isGenerating (pageWith (js ''  hello ''))
   \<and> trim (chatInput_value (pageWith (js ''  hello ''))) = js ''hello''
   \<and> textContent (p_childNodes (the (elems
        (handleChatSubmit sampleParse sampleAnswers (pageWith (js ''  hello ''))) 2)))
      = js ''Oh, hi. Is it you?''
   \<and> last (chatHistory (handleChatSubmit sampleParse sampleAnswers (pageWith (js ''  hello '')))) = 2
   \<and> sendMessageStream_response sampleAnswers
      = Resolves ([js ''Ye'', js ''s, it is'', js ''.''], StreamDone)
   \<and> textContent (p_childNodes (the (elems
        (handleChatSubmit sampleParse sampleAnswers (inDialogue\<lparr>chatInput_value := js ''you?''\<rparr>))
        (Suc (nextId inDialogue)))))
      = js ''Yes, it is.''"
proof -
  have pre: "\<not> isGenerating (pageWith (js ''  hello ''))"
    "trim (chatInput_value (pageWith (js ''  hello ''))) \<noteq> []"
    "trim (chatInput_value (pageWith (js ''  hello ''))) = js ''hello''"
    "isFirstMessage (pageWith (js ''  hello ''))"
    "nextId (pageWith (js ''  hello '')) = 0"
    "generateContent_response sampleAnswers = Resolves sampleText"
    "sampleParse sampleText = Parsed sampleProfile"
    "systemInstruction sampleProfile \<noteq> None"
    by (simp_all add: pageWith_def emptyPage_def trim_def isWhiteSpace_def sampleAnswers_def
        sampleParse_def sample_instructions js_simps)
  from streamed_text_complete [OF pre(1,2), of sampleAnswers sampleText sampleParse sampleProfile
      "js ''Oh, hi. Is it you?''"] pre sample_properties(1)
  have first: "textContent (p_childNodes (the (elems
        (handleChatSubmit sampleParse sampleAnswers (pageWith (js ''  hello ''))) 2)))
      = js ''Oh, hi. Is it you?''"
    "last (chatHistory (handleChatSubmit sampleParse sampleAnswers (pageWith (js ''  hello '')))) = 2"
    by (auto simp: numeral_2_eq_2)
  let ?s = "inDialogue\<lparr>chatInput_value := js ''you?''\<rparr>"
  have stream: "sendMessageStream_response sampleAnswers
      = Resolves ([js ''Ye'', js ''s, it is'', js ''.''], StreamDone)"
    by (simp add: sampleAnswers_def)
  have later: "\<not> isGenerating ?s" "trim (chatInput_value ?s) \<noteq> []" "\<not> isFirstMessage ?s"
    "chat ?s = Some (Chat sampleInstruction)" "nextId ?s = nextId inDialogue"
    using reachable_invariant [OF reachable_inDialogue] inDialogue_session
    by (simp_all add: trim_def isWhiteSpace_def js_simps)
  from streamed_text_complete [OF later(1,2), of sampleAnswers _ sampleParse _ _
      "Chat sampleInstruction" "[js ''Ye'', js ''s, it is'', js ''.'']"]
    later stream
  have "textContent (p_childNodes (the (elems (handleChatSubmit sampleParse sampleAnswers ?s)
        (Suc (nextId inDialogue))))) = concat [js ''Ye'', js ''s, it is'', js ''.'']"
    by auto
  then have second: "textContent (p_childNodes (the (elems (handleChatSubmit sampleParse sampleAnswers ?s)
        (Suc (nextId inDialogue))))) = js ''Yes, it is.''"
    by (simp add: js_simps)
  show ?thesis
    using pre(1,3) first stream second by blast
qed

text \<open>
  C2. Once the first-message flag is cleared, no event sets it again, and no event changes
  the chat handle or creates another session or asks for another profile: the transition
  happens at most once. While the flag is set, an event clears it exactly when it is a
  submission of a non-blank input for which \<open>generateNpcAndStartChat\<close> gets as far as
  the system instruction: the profile request resolves, its text parses, and the system
  instruction can be built from the parsed value. Whether the first message is then rendered
  does not matter. One chat session has been created when the flag is cleared and none
  before. Every non-blank submission in dialogue makes exactly one request,
  \<open>sendMessageStream\<close> on the existing chat handle.
\<close>

theorem contact_established_once:
  assumes "reachable JSON_parse s"
  shows "(\<not> isFirstMessage s \<longrightarrow>
            \<not> isFirstMessage (step JSON_parse s e) \<and> chat (step JSON_parse s e) = chat s
          \<and> chatsCreated (requests (step JSON_parse s e)) = chatsCreated (requests s)
          \<and> profileRequests (requests (step JSON_parse s e)) = profileRequests (requests s))
       \<and> (isFirstMessage s \<longrightarrow>
            (\<not> isFirstMessage (step JSON_parse s e) \<longleftrightarrow>
               (\<exists>v env. e = UserSubmits v env \<and> trim v \<noteq> []
                  \<and> contactInstruction JSON_parse (generateContent_response env) \<noteq> None)))
       \<and> chatsCreated (requests s) = (if isFirstMessage s then 0 else 1)
       \<and> (\<not> isFirstMessage s \<and> trim v \<noteq> [] \<longrightarrow>
            (\<exists>c. chat s = Some c
               \<and> requests (step JSON_parse s (UserSubmits v env'))
                   = requests s @ [SendMessageStream c (trim v)]))"
  using step_session [OF assms, of e] reachable_invariant [OF assms]
    dialogue_submission [OF assms, of v env']
  by (simp split: if_splits)

theorem contact_established_once_witness:
  "reachable sampleParse emptyPage
   \<and> isFirstMessage emptyPage
   \<and> chatsCreated (requests emptyPage) = 0
   \<and> isFirstMessage (step sampleParse emptyPage (UserSubmits (js ''  hello '') failingAnswers))
   \<and> isFirstMessage (step sampleParse emptyPage (UserSubmits (js ''  hello '') unprintableAnswers))
   \<and> \<not> isFirstMessage (step sampleParse emptyPage (UserSubmits (js ''  hello '') sampleAnswers))
   \<and> \<not> isFirstMessage (step sampleParse emptyPage (UserSubmits (js ''  hello '') silentAnswers))
   \<and> reachable sampleParse inDialogue
   \<and> \<not> isFirstMessage inDialogue
   \<and> chatsCreated (requests inDialogue) = 1
   \<and> \<not> isFirstMessage (step sampleParse inDialogue (UserSubmits (js ''again'') sampleAnswers))
   \<and> chatsCreated (requests (step sampleParse inDialogue (UserSubmits (js ''again'') sampleAnswers))) = 1
   \<and> profileRequests (requests (step sampleParse inDialogue (UserSubmits (js ''again'') sampleAnswers)))
       = profileRequests (requests inDialogue)
   \<and> requests (step sampleParse inDialogue (UserSubmits (js ''again'') sampleAnswers))
       = requests inDialogue @ [SendMessageStream (Chat sampleInstruction) (js ''again'')]"
proof -
  have first: "isFirstMessage emptyPage" "chatsCreated (requests emptyPage) = 0"
    by (simp_all add: emptyPage_def chatsCreated_simps)
  have hello: "trim (js ''  hello '') \<noteq> []" "trim (js ''again'') \<noteq> []"
    "trim (js ''again'') = js ''again''"
    by (simp_all add: trim_def isWhiteSpace_def js_simps)
  from contact_established_once [OF reachable_emptyPage,
      of sampleParse "UserSubmits (js ''  hello '') failingAnswers"] first
  have failed: "isFirstMessage (step sampleParse emptyPage (UserSubmits (js ''  hello '') failingAnswers))"
    by (simp add: sample_answers sample_contact)
  from contact_established_once [OF reachable_emptyPage,
      of sampleParse "UserSubmits (js ''  hello '') unprintableAnswers"] first
  have unprintable:
    "isFirstMessage (step sampleParse emptyPage (UserSubmits (js ''  hello '') unprintableAnswers))"
    by (simp add: sample_answers sample_contact)
  from contact_established_once [OF reachable_emptyPage,
      of sampleParse "UserSubmits (js ''  hello '') sampleAnswers"] first hello
  have succeeded:
    "\<not> isFirstMessage (step sampleParse emptyPage (UserSubmits (js ''  hello '') sampleAnswers))"
    by (simp add: sample_answers sample_contact)
  from contact_established_once [OF reachable_emptyPage,
      of sampleParse "UserSubmits (js ''  hello '') silentAnswers"] first hello
  have silent:
    "\<not> isFirstMessage (step sampleParse emptyPage (UserSubmits (js ''  hello '') silentAnswers))"
    by (simp add: sample_answers sample_contact)
  from contact_established_once [OF reachable_inDialogue,
      of "UserSubmits (js ''again'') sampleAnswers" "js ''again''" sampleAnswers]
    inDialogue_session hello
  have later: "chatsCreated (requests inDialogue) = 1"
    "\<not> isFirstMessage (step sampleParse inDialogue (UserSubmits (js ''again'') sampleAnswers))"
    "chatsCreated (requests (step sampleParse inDialogue (UserSubmits (js ''again'') sampleAnswers))) = 1"
    "profileRequests (requests (step sampleParse inDialogue (UserSubmits (js ''again'') sampleAnswers)))
       = profileRequests (requests inDialogue)"
    "requests (step sampleParse inDialogue (UserSubmits (js ''again'') sampleAnswers))
       = requests inDialogue @ [SendMessageStream (Chat sampleInstruction) (js ''again'')]"
    by (simp_all add: chatsCreated_simps profileRequests_simps)
  show ?thesis
    using reachable_emptyPage [of sampleParse] reachable_inDialogue inDialogue_session(1)
      first(1,2) failed unprintable succeeded silent later
    by blast
qed

text \<open>
  The transition also happens on a submission that \<open>generateNpcAndStartChat\<close> ends in
  its \<^verbatim>\<open>catch\<close> block. The response \<^verbatim>\<open>{"name":"Lin"}\<close> has no first message:
  the flag is cleared, the loop over the missing property throws, and the failure message is
  the last one of the transcript, with the session in dialogue. And a blank submission in
  dialogue is not forwarded: it makes no request.
\<close>

theorem contact_established_on_failure_counterexample:
  "isFirstMessage emptyPage
   \<and> \<not> isFirstMessage afterSilent
   \<and> elems afterSilent (last (chatHistory afterSilent))
       = Some \<lparr>classList = [js ''message'', js ''npc-message''],
               p_childNodes = [TextNode contactFailedText]\<rparr>
   \<and> chatInput_placeholder afterSilent = placeholderContinue
   \<and> \<not> isFirstMessage inDialogue
   \<and> requests (step sampleParse inDialogue (UserSubmits (js ''   '') sampleAnswers))
       = requests inDialogue"
proof -
  have "trim (js ''   '') = []"
    by (simp add: trim_def isWhiteSpace_def js_simps)
  then have "step sampleParse inDialogue (UserSubmits (js ''   '') sampleAnswers)
      = inDialogue\<lparr>chatInput_value := js ''   ''\<rparr>"
    by (simp add: handleChatSubmit_ignored)
  then show ?thesis
    using afterSilent_session(1) afterSilent_transcript inDialogue_session(1)
    by (simp add: emptyPage_def plainMessage_def setTextContent_def contactFailedText_def js_simps)
qed

text \<open>
  C3. When the profile request rejects or its response text does not parse,
  \<open>generateNpcAndStartChat\<close> takes the placeholder out of the transcript, appends the one
  failure message, makes the profile request and no other (no chat session is created),
  leaves the chat handle, the profile and the first-message flag as they were, and clears
  the busy flag.
\<close>

theorem profile_generation_failure:
  assumes "response = Rejects \<or> (\<exists>t. response = Resolves t \<and> JSON_parse t = SyntaxError)"
    and "list_all (\<lambda>k. k < nextId s) (chatHistory s)"
  shows "chatHistory (generateNpcAndStartChat JSON_parse response initialPrompt s)
           = chatHistory s @ [Suc (nextId s)]
       \<and> elems (generateNpcAndStartChat JSON_parse response initialPrompt s) (Suc (nextId s))
           = Some \<lparr>classList = [js ''message'', js ''npc-message''],
                   p_childNodes = [TextNode contactFailedText]\<rparr>
       \<and> nextId s \<notin> set (chatHistory (generateNpcAndStartChat JSON_parse response initialPrompt s))
       \<and> requests (generateNpcAndStartChat JSON_parse response initialPrompt s)
           = requests s @ [GenerateContent (npcGenerationPrompt initialPrompt)]
       \<and> chat (generateNpcAndStartChat JSON_parse response initialPrompt s) = chat s
       \<and> npcProfile (generateNpcAndStartChat JSON_parse response initialPrompt s) = npcProfile s
       \<and> isFirstMessage (generateNpcAndStartChat JSON_parse response initialPrompt s)
           = isFirstMessage s
       \<and> \<not> isGenerating (generateNpcAndStartChat JSON_parse response initialPrompt s)"
  unfolding contact_rejected [where JSON_parse = JSON_parse, OF assms(1)]
  using removeAll_fresh [OF assms(2)] fresh_notin [OF assms(2)]
  by (simp add: plainMessage_def setTextContent_def contactFailedText_def js_simps)

theorem profile_generation_failure_witness:
  "chatHistory (generateNpcAndStartChat sampleParse Rejects (js ''hello'') emptyPage) = [1]
   \<and> isFirstMessage (generateNpcAndStartChat sampleParse Rejects (js ''hello'') emptyPage)
   \<and> chat (generateNpcAndStartChat sampleParse Rejects (js ''hello'') emptyPage) = None
   \<and> \<not> isGenerating (generateNpcAndStartChat sampleParse Rejects (js ''hello'') emptyPage)"
  using profile_generation_failure [of Rejects sampleParse emptyPage "js ''hello''"]
  by (simp add: emptyPage_def)

text \<open>
  C4. Once the first-message flag is cleared the profile is set and no event changes it.
  A profile from which the system instruction can be built is stored only by the step that
  clears the flag: in a reachable state such a profile comes with a cleared flag, and is
  the same after every event. The profile variable changes only by a non-blank submission
  made while the flag is set, and then to the value that the response parsed to.
\<close>

theorem profile_fixed_by_contact:
  assumes "reachable JSON_parse s"
  shows "(\<not> isFirstMessage s \<longrightarrow>
            npcProfile s \<noteq> JNull \<and> npcProfile (step JSON_parse s e) = npcProfile s)
       \<and> (systemInstruction (npcProfile s) \<noteq> None \<longrightarrow>
            \<not> isFirstMessage s \<and> npcProfile (step JSON_parse s e) = npcProfile s)
       \<and> (npcProfile (step JSON_parse s e) \<noteq> npcProfile s \<longrightarrow>
            isFirstMessage s
          \<and> (\<exists>v env. e = UserSubmits v env \<and> trim v \<noteq> []
                \<and> generatedProfile JSON_parse (generateContent_response env)
                    = Some (npcProfile (step JSON_parse s e))))"
proof -
  note inv = reachable_invariant [OF assms]
  note S = step_session [OF assms, of e]
  have 1: "npcProfile s \<noteq> JNull" if "\<not> isFirstMessage s"
    using inv that by (auto simp: systemInstruction_null)
  have 2: "\<not> isFirstMessage s" if "systemInstruction (npcProfile s) \<noteq> None"
    using inv that by (auto split: if_splits)
  show ?thesis
    using 1 2 S by blast
qed

theorem profile_fixed_by_contact_witness:
  "reachable sampleParse afterUnprintable
   \<and> isFirstMessage afterUnprintable
   \<and> systemInstruction (npcProfile afterUnprintable) = None
   \<and> reachable sampleParse afterRetry
   \<and> \<not> isFirstMessage afterRetry
   \<and> npcProfile afterRetry = sampleProfile
   \<and> npcProfile (step sampleParse afterRetry (UserSubmits (js ''again'') sampleAnswers))
       = sampleProfile
   \<and> npcProfile (step sampleParse afterRetry (UserSubmits (js ''again'') unprintableAnswers))
       = sampleProfile
   \<and> npcProfile (step sampleParse afterRetry (ImageSettles Rejects)) = sampleProfile"
proof -
  from profile_fixed_by_contact [OF reachable_afterUnprintable,
      of "UserSubmits (js ''  hello '') sampleAnswers"] afterUnprintable_session(1)
  have before: "systemInstruction (npcProfile afterUnprintable) = None"
    by blast
  from profile_fixed_by_contact [OF reachable_afterRetry, of "UserSubmits (js ''again'') sampleAnswers"]
    profile_fixed_by_contact [OF reachable_afterRetry, of "UserSubmits (js ''again'') unprintableAnswers"]
    profile_fixed_by_contact [OF reachable_afterRetry, of "ImageSettles Rejects"]
    afterRetry_session
  have after:
    "npcProfile (step sampleParse afterRetry (UserSubmits (js ''again'') sampleAnswers)) = sampleProfile"
    "npcProfile (step sampleParse afterRetry (UserSubmits (js ''again'') unprintableAnswers)) = sampleProfile"
    "npcProfile (step sampleParse afterRetry (ImageSettles Rejects)) = sampleProfile"
    by simp_all
  show ?thesis
    using reachable_afterUnprintable reachable_afterRetry afterUnprintable_session(1)
      afterRetry_session(1,2) before after
    by blast
qed

text \<open>
  The profile is assigned twice in the session that starts with the response
  \<^verbatim>\<open>{"name":{"toString":0},"first_message":"hi"}\<close>: the value is stored, the template
  literal of the system instruction throws on the name, and the flag stays set with the
  profile in place; the retry stores the sample profile over it.
\<close>

theorem profile_assigned_twice_counterexample:
  "npcProfile emptyPage = JNull
   \<and> reachable sampleParse afterUnprintable
   \<and> isFirstMessage afterUnprintable
   \<and> npcProfile afterUnprintable = unprintableProfile
   \<and> unprintableProfile \<noteq> JNull
   \<and> npcProfile (step sampleParse afterUnprintable (UserSubmits (js ''  hello '') sampleAnswers))
       = sampleProfile
   \<and> sampleProfile \<noteq> unprintableProfile"
  using reachable_afterUnprintable afterUnprintable_session(1,2) afterRetry_session(2)
    sample_profiles_differ
  by (simp add: emptyPage_def afterRetry_def)

text \<open>
  C5. A submission while the busy flag is set changes nothing: the handler returns the
  state it was given, so the transcript, the session variables and the list of requests
  made to the collaborators are all as before.
\<close>

theorem busy_submission_rejected:
  assumes "isGenerating s"
  shows "handleChatSubmit JSON_parse env s = s"
  using assms by (simp add: handleChatSubmit_ignored)

theorem busy_submission_rejected_witness:
  "isGenerating (setLoading True (pageWith (js ''hello'')))
   \<and> handleChatSubmit sampleParse sampleAnswers (setLoading True (pageWith (js ''hello'')))
       = setLoading True (pageWith (js ''hello''))"
  using busy_submission_rejected [of "setLoading True (pageWith (js ''hello''))" sampleParse sampleAnswers]
  by (simp add: setLoading_def)

text \<open>
  C8. The portrait request is made inside \<open>generateNpcAndStartChat\<close> and not awaited:
  when the profile was generated and the system instruction built, the function returns with
  the busy flag cleared and the image request still pending, whatever the image collaborator
  will answer. When the image prompt cannot even be converted to a string, no request is
  made, the placeholder is shown with the failure caption and the loader hidden at once, and
  the text flow goes on: the chat session is created and the flag cleared. When the image
  request fails (it rejects, or it resolves without an image), settling it shows the
  placeholder with the failure caption, hides the loader and changes nothing else: the
  transcript, the session variables and the requests made are as before. The loader is
  hidden after every settling, failed or not. A later chat turn gives the same state
  whether the image request settles before it or after it.
\<close>

theorem portrait_failure_isolated:
  "(generatedProfile JSON_parse response = Some p \<and> systemInstruction p = Some instruction
    \<and> toStr (property p (js ''image_prompt'')) = Some prompt \<longrightarrow>
      pendingImages (generateNpcAndStartChat JSON_parse response initialPrompt s) = Suc (pendingImages s)
    \<and> \<not> isGenerating (generateNpcAndStartChat JSON_parse response initialPrompt s)
    \<and> requests (generateNpcAndStartChat JSON_parse response initialPrompt s)
        = requests s @
            [GenerateContent (npcGenerationPrompt initialPrompt),
             GenerateImages (prompt @ enhancedPrompt_style),
             ChatsCreate instruction])
   \<and> (generatedProfile JSON_parse response = Some p \<and> systemInstruction p = Some instruction
      \<and> toStr (property p (js ''image_prompt'')) = None \<longrightarrow>
        pendingImages (generateNpcAndStartChat JSON_parse response initialPrompt s) = pendingImages s
      \<and> \<not> isGenerating (generateNpcAndStartChat JSON_parse response initialPrompt s)
      \<and> requests (generateNpcAndStartChat JSON_parse response initialPrompt s)
          = requests s @
              [GenerateContent (npcGenerationPrompt initialPrompt), ChatsCreate instruction]
      \<and> \<not> isFirstMessage (generateNpcAndStartChat JSON_parse response initialPrompt s)
      \<and> chat (generateNpcAndStartChat JSON_parse response initialPrompt s) = Some (Chat instruction)
      \<and> \<not> portraitPlaceholder_hidden (generateNpcAndStartChat JSON_parse response initialPrompt s)
      \<and> portraitPlaceholder_caption (generateNpcAndStartChat JSON_parse response initialPrompt s)
          = imageFailedCaption
      \<and> portraitLoader_hidden (generateNpcAndStartChat JSON_parse response initialPrompt s))
   \<and> (imageResponse = Rejects \<or> imageResponse = Resolves [] \<longrightarrow>
        generateNpcImage_settle imageResponse s
          = s\<lparr>portraitPlaceholder_hidden := False,
              portraitPlaceholder_caption := imageFailedCaption,
              portraitLoader_hidden := True,
              pendingImages := pendingImages s - 1\<rparr>)
   \<and> portraitLoader_hidden (generateNpcImage_settle r s)
   \<and> (\<not> isFirstMessage s \<longrightarrow>
        handleChatSubmit JSON_parse env (generateNpcImage_settle r s)
          = generateNpcImage_settle r (handleChatSubmit JSON_parse env s))"
proof -
  let ?s' = "generateNpcAndStartChat JSON_parse response initialPrompt s"
  have run: "\<not> isGenerating ?s' \<and> \<not> isFirstMessage ?s' \<and> chat ?s' = Some (Chat instruction)
      \<and> requests ?s' = requests s @
            GenerateContent (npcGenerationPrompt initialPrompt)
              # imageRequest (property p (js ''image_prompt'')) @ [ChatsCreate instruction]
      \<and> pendingImages ?s' = pendingImages s + length (imageRequest (property p (js ''image_prompt'')))
      \<and> portraitPlaceholder_hidden ?s' = (toStr (property p (js ''image_prompt'')) \<noteq> None)
      \<and> portraitPlaceholder_caption ?s' =
          (if toStr (property p (js ''image_prompt'')) = None then imageFailedCaption
           else portraitPlaceholder_caption s)
      \<and> portraitLoader_hidden ?s' = (toStr (property p (js ''image_prompt'')) = None)"
    if gp: "generatedProfile JSON_parse response = Some p"
      and si: "systemInstruction p = Some instruction"
  proof (cases rule: contact_cases [where JSON_parse = JSON_parse and response = response])
    case rejected
    with gp show ?thesis by (auto simp: generatedProfile_def)
  next
    case (null t)
    with gp si show ?thesis by (auto simp: generatedProfile_def systemInstruction_null)
  next
    case (uninstructed t v)
    with gp si show ?thesis by (auto simp: generatedProfile_def)
  next
    case (unrendered t v i)
    with gp si have "v = p" "i = instruction" by (auto simp: generatedProfile_def)
    with unrendered show ?thesis
      by (simp add: contact_unrendered [where JSON_parse = JSON_parse and t = t and v = p
            and instruction = instruction])
  next
    case (established t v i)
    with gp si have "v = p" "i = instruction" by (auto simp: generatedProfile_def)
    with established show ?thesis
      by (simp add: contact_established [where JSON_parse = JSON_parse and t = t and v = p
            and instruction = instruction])
  qed
  have requested: "pendingImages ?s' = Suc (pendingImages s) \<and> \<not> isGenerating ?s'
      \<and> requests ?s' = requests s @
            [GenerateContent (npcGenerationPrompt initialPrompt),
             GenerateImages (prompt @ enhancedPrompt_style),
             ChatsCreate instruction]"
    if "generatedProfile JSON_parse response = Some p \<and> systemInstruction p = Some instruction
        \<and> toStr (property p (js ''image_prompt'')) = Some prompt"
    using run that by (simp add: imageRequest_def)
  have refused: "pendingImages ?s' = pendingImages s \<and> \<not> isGenerating ?s'
      \<and> requests ?s' = requests s @
            [GenerateContent (npcGenerationPrompt initialPrompt), ChatsCreate instruction]
      \<and> \<not> isFirstMessage ?s' \<and> chat ?s' = Some (Chat instruction)
      \<and> \<not> portraitPlaceholder_hidden ?s'
      \<and> portraitPlaceholder_caption ?s' = imageFailedCaption
      \<and> portraitLoader_hidden ?s'"
    if "generatedProfile JSON_parse response = Some p \<and> systemInstruction p = Some instruction
        \<and> toStr (property p (js ''image_prompt'')) = None"
    using run that by (simp add: imageRequest_def)
  have "portraitLoader_hidden (generateNpcImage_settle r s)"
    by (cases r rule: image_settle_cases) (simp_all add: image_settle_failed image_settle_succeeded)
  then show ?thesis
    using requested refused image_settle_failed [of imageResponse s]
      settle_commutes [of s JSON_parse env r]
    by blast
qed

theorem portrait_failure_isolated_witness:
  "generatedProfile sampleParse (Resolves sampleText) = Some sampleProfile
   \<and> pendingImages (generateNpcAndStartChat sampleParse (Resolves sampleText) (js ''hello'') emptyPage) = 1
   \<and> \<not> isGenerating (generateNpcAndStartChat sampleParse (Resolves sampleText) (js ''hello'') emptyPage)
   \<and> generatedProfile sampleParse (Resolves unpaintableText) = Some unpaintableProfile
   \<and> toStr (property unpaintableProfile (js ''image_prompt'')) = None
   \<and> pendingImages (generateNpcAndStartChat sampleParse (Resolves unpaintableText) (js ''hello'') emptyPage) = 0
   \<and> \<not> isFirstMessage (generateNpcAndStartChat sampleParse (Resolves unpaintableText) (js ''hello'') emptyPage)
   \<and> portraitPlaceholder_caption
        (generateNpcAndStartChat sampleParse (Resolves unpaintableText) (js ''hello'') emptyPage)
       = imageFailedCaption
   \<and> \<not> portraitPlaceholder_hidden (generateNpcImage_settle Rejects inDialogue)
   \<and> portraitPlaceholder_caption (generateNpcImage_settle Rejects inDialogue) = imageFailedCaption
   \<and> portraitLoader_hidden (generateNpcImage_settle Rejects inDialogue)
   \<and> chatHistory (generateNpcImage_settle Rejects inDialogue) = chatHistory inDialogue
   \<and> requests (generateNpcImage_settle Rejects inDialogue) = requests inDialogue
   \<and> trim (js ''you?'') = js ''you?''
   \<and> handleChatSubmit sampleParse sampleAnswers
        (generateNpcImage_settle Rejects (inDialogue\<lparr>chatInput_value := js ''you?''\<rparr>))
       = generateNpcImage_settle Rejects
           (handleChatSubmit sampleParse sampleAnswers (inDialogue\<lparr>chatInput_value := js ''you?''\<rparr>))"
proof -
  from portrait_failure_isolated [of sampleParse "Resolves sampleText" sampleProfile
      sampleInstruction "js ''a fern on a sill''" "js ''hello''" emptyPage Rejects Rejects sampleAnswers]
  have 1: "pendingImages (generateNpcAndStartChat sampleParse (Resolves sampleText) (js ''hello'') emptyPage) = 1"
    "\<not> isGenerating (generateNpcAndStartChat sampleParse (Resolves sampleText) (js ''hello'') emptyPage)"
    by (simp_all add: sample_generated sample_instructions sample_properties emptyPage_def)
  from portrait_failure_isolated [of sampleParse "Resolves unpaintableText" unpaintableProfile
      silentInstruction _ "js ''hello''" emptyPage Rejects Rejects sampleAnswers]
  have 2: "pendingImages (generateNpcAndStartChat sampleParse (Resolves unpaintableText) (js ''hello'') emptyPage) = 0"
    "\<not> isFirstMessage (generateNpcAndStartChat sampleParse (Resolves unpaintableText) (js ''hello'') emptyPage)"
    "portraitPlaceholder_caption
        (generateNpcAndStartChat sampleParse (Resolves unpaintableText) (js ''hello'') emptyPage)
       = imageFailedCaption"
    by (simp_all add: sample_generated sample_instructions sample_properties emptyPage_def)
  note W = portrait_failure_isolated [of sampleParse "Resolves sampleText" sampleProfile
      sampleInstruction "js ''a fern on a sill''" "js ''hello''" inDialogue Rejects Rejects sampleAnswers]
  have 3: "generateNpcImage_settle Rejects inDialogue
          = inDialogue\<lparr>portraitPlaceholder_hidden := False,
              portraitPlaceholder_caption := imageFailedCaption,
              portraitLoader_hidden := True,
              pendingImages := pendingImages inDialogue - 1\<rparr>"
    using W by blast
  have 4: "\<not> portraitPlaceholder_hidden (generateNpcImage_settle Rejects inDialogue)"
    "portraitPlaceholder_caption (generateNpcImage_settle Rejects inDialogue) = imageFailedCaption"
    "portraitLoader_hidden (generateNpcImage_settle Rejects inDialogue)"
    "chatHistory (generateNpcImage_settle Rejects inDialogue) = chatHistory inDialogue"
    "requests (generateNpcImage_settle Rejects inDialogue) = requests inDialogue"
    by (simp_all add: 3)
  let ?s = "inDialogue\<lparr>chatInput_value := js ''you?''\<rparr>"
  have "\<not> isFirstMessage ?s"
    using inDialogue_session(1) by simp
  with portrait_failure_isolated [of sampleParse "Resolves sampleText" sampleProfile
      sampleInstruction "js ''a fern on a sill''" "js ''hello''" ?s Rejects Rejects sampleAnswers]
  have 5: "handleChatSubmit sampleParse sampleAnswers (generateNpcImage_settle Rejects ?s)
       = generateNpcImage_settle Rejects (handleChatSubmit sampleParse sampleAnswers ?s)"
    by blast
  have 6: "trim (js ''you?'') = js ''you?''"
    by (simp add: trim_def isWhiteSpace_def js_simps)
  show ?thesis
    using sample_generated(1,4) sample_properties(6) 1 2 4 5 6 by blast
qed

text \<open>
  C9. In every reachable state with the first-message flag cleared, the chat handle and
  the profile are set, so a non-blank submission in dialogue takes the branch
  \<open>else if (chat)\<close> and is sent. Inside \<open>generateNpcAndStartChat\<close> the handle is
  assigned before the flag is cleared: however the \<open>try\<close> block ends, normally or by
  a throw, a cleared flag comes with a chat handle and a profile.
\<close>

theorem dialogue_has_chat_and_profile:
  assumes "reachable JSON_parse s"
  shows "(\<not> isFirstMessage s \<longrightarrow> chat s \<noteq> None \<and> npcProfile s \<noteq> JNull)
       \<and> (\<not> isFirstMessage s \<and> trim v \<noteq> [] \<longrightarrow>
            (\<exists>c. chat s = Some c
               \<and> requests (step JSON_parse s (UserSubmits v env))
                   = requests s @ [SendMessageStream c (trim v)]))
       \<and> (isFirstMessage x \<longrightarrow>
            isFirstMessage (snd (generateNpcAndStartChat_try JSON_parse response statusMessage initialPrompt x))
          \<or> (chat (snd (generateNpcAndStartChat_try JSON_parse response statusMessage initialPrompt x)) \<noteq> None
             \<and> npcProfile (snd (generateNpcAndStartChat_try JSON_parse response statusMessage initialPrompt x)) \<noteq> JNull))"
proof -
  have "isFirstMessage (snd (generateNpcAndStartChat_try JSON_parse response statusMessage initialPrompt x))
          \<or> (chat (snd (generateNpcAndStartChat_try JSON_parse response statusMessage initialPrompt x)) \<noteq> None
             \<and> npcProfile (snd (generateNpcAndStartChat_try JSON_parse response statusMessage initialPrompt x)) \<noteq> JNull)"
    if "isFirstMessage x"
    using contact_try_session [OF that] .
  then show ?thesis
    using reachable_invariant [OF assms] dialogue_submission [OF assms, of v env]
    by (auto simp: systemInstruction_null split: if_splits)
qed

theorem dialogue_has_chat_and_profile_witness:
  "reachable sampleParse inDialogue
   \<and> \<not> isFirstMessage inDialogue
   \<and> chat inDialogue = Some (Chat sampleInstruction)
   \<and> npcProfile inDialogue = sampleProfile
   \<and> trim (js ''again'') = js ''again''
   \<and> requests (step sampleParse inDialogue (UserSubmits (js ''again'') sampleAnswers))
       = requests inDialogue @ [SendMessageStream (Chat sampleInstruction) (js ''again'')]"
proof -
  have t: "trim (js ''again'') = js ''again''" "trim (js ''again'') \<noteq> []"
    by (simp_all add: trim_def isWhiteSpace_def js_simps)
  from dialogue_has_chat_and_profile [OF reachable_inDialogue, of "js ''again''" sampleAnswers]
    reachable_inDialogue inDialogue_session t
  show ?thesis by simp
qed

text \<open>
  C10. An input that is empty or all white space trims to the empty string, and then the
  submission changes nothing, busy or not. An input that is accepted is echoed trimmed:
  the new user message holds \<open>trim\<close> of the input as its one text node, and the request
  that follows carries the trimmed text (inside the profile prompt on first contact, as the
  chat message afterwards).
\<close>

theorem blank_input_ignored:
  "(trim (chatInput_value s) = [] \<longleftrightarrow> list_all isWhiteSpace (chatInput_value s))
   \<and> (list_all isWhiteSpace (chatInput_value s) \<longrightarrow> handleChatSubmit JSON_parse env s = s)
   \<and> (\<not> isGenerating s \<and> \<not> list_all isWhiteSpace (chatInput_value s) \<longrightarrow>
        elems (handleChatSubmit JSON_parse env s) (nextId s)
          = Some \<lparr>classList = [js ''message'', js ''user-message''],
                  p_childNodes = [TextNode (trim (chatInput_value s))]\<rparr>
        \<and> nextId s \<in> set (chatHistory (handleChatSubmit JSON_parse env s))
        \<and> (isFirstMessage s \<longrightarrow>
             (\<exists>rest. requests (handleChatSubmit JSON_parse env s)
                = requests s @ GenerateContent (npcGenerationPrompt (trim (chatInput_value s))) # rest))
        \<and> (\<not> isFirstMessage s \<and> chat s = Some c \<longrightarrow>
             requests (handleChatSubmit JSON_parse env s)
               = requests s @ [SendMessageStream c (trim (chatInput_value s))]))"
proof (cases "trim (chatInput_value s) = []")
  case True
  then show ?thesis
    by (simp add: trim_empty_iff [symmetric] handleChatSubmit_ignored)
next
  case input: False
  show ?thesis
  proof (cases "isGenerating s")
    case True
    then show ?thesis
      using input by (simp add: trim_empty_iff [symmetric])
  next
    case idle: False
    note echo = submit_echo [OF idle input, of JSON_parse env]
    have first: "\<exists>rest. requests (handleChatSubmit JSON_parse env s)
        = requests s @ GenerateContent (npcGenerationPrompt (trim (chatInput_value s))) # rest"
      if "isFirstMessage s"
    proof -
      define s0 where "s0 = (echoed s)\<lparr>signalContainer_innerHTML := signalVines\<rparr>"
      have s0: "nextId s0 = Suc (nextId s)" "chatHistory s0 = chatHistory s @ [nextId s]"
        "requests s0 = requests s"
        by (simp_all add: s0_def echoed_def)
      have eq: "handleChatSubmit JSON_parse env s
          = generateNpcAndStartChat JSON_parse (generateContent_response env)
               (trim (chatInput_value s)) s0"
        unfolding s0_def using handleChatSubmit_first [OF idle input that] .
      show ?thesis
      proof (cases rule: contact_cases [where JSON_parse = JSON_parse and response = "generateContent_response env"])
        case rejected
        show ?thesis
          unfolding eq contact_rejected [where JSON_parse = JSON_parse, OF rejected] by (simp add: s0)
      next
        case (null t)
        show ?thesis
          unfolding eq contact_null [where JSON_parse = JSON_parse, OF null] by (simp add: s0)
      next
        case (uninstructed t v)
        show ?thesis
          unfolding eq contact_no_instruction [where JSON_parse = JSON_parse, OF uninstructed]
          by (simp add: s0)
      next
        case (unrendered t v i)
        show ?thesis
          unfolding eq contact_unrendered [where JSON_parse = JSON_parse, OF unrendered]
          by (simp add: s0)
      next
        case (established t v i)
        show ?thesis
          unfolding eq contact_established [where JSON_parse = JSON_parse, OF established]
          by (simp add: s0)
      qed
    qed
    have later: "requests (handleChatSubmit JSON_parse env s)
        = requests s @ [SendMessageStream c (trim (chatInput_value s))]"
      if "\<not> isFirstMessage s" "chat s = Some c"
    proof (cases "sendMessageStream_response env" rule: stream_cases)
      case rejected
      show ?thesis
        unfolding chat_rejected [OF idle input that rejected] by simp
    next
      case interrupted
      show ?thesis
        unfolding chat_interrupted [OF idle input that interrupted] by simp
    next
      case completed
      show ?thesis
        unfolding chat_completed [OF idle input that completed] by simp
    qed
    show ?thesis
      using input idle echo first later
      by (simp add: trim_empty_iff [symmetric] plainMessage_def setTextContent_def js_simps)
  qed
qed

theorem blank_input_ignored_witness:
  "list_all isWhiteSpace (chatInput_value (pageWith (js ''   '')))
   \<and> handleChatSubmit sampleParse sampleAnswers (pageWith (js ''   '')) = pageWith (js ''   '')
   \<and> \<not> list_all isWhiteSpace (chatInput_value (pageWith (js ''  hello '')))
   \<and> elems (handleChatSubmit sampleParse sampleAnswers (pageWith (js ''  hello ''))) 0
       = Some \<lparr>classList = [js ''message'', js ''user-message''],
               p_childNodes = [TextNode (js ''hello'')]\<rparr>"
  using blank_input_ignored [of "pageWith (js ''   '')" sampleParse sampleAnswers]
    blank_input_ignored [of "pageWith (js ''  hello '')" sampleParse sampleAnswers]
  by (simp add: pageWith_def emptyPage_def trim_def isWhiteSpace_def js_simps)

end
